(* ===== verification/Prelude.thy ===== *)
theory Prelude
  imports Complex_Main
begin

text \<open>
  Shared vocabulary of the dashboard development: the types that name the values the
  component \<open>Dashboard\<close> (src/src/app/component/dashboard/page.tsx) passes around,
  JavaScript truthiness of the optional strings it tests with \<open>if (x)\<close> and
  \<open>x && ...\<close>, the collections of definitions the component proofs unfold, and the
  generic list lemmas those proofs share.
\<close>

section \<open>Types of the model\<close>

text \<open>A wallet public key, as its base-58 text (\<open>publicKey.toBase58()\<close>).\<close>
type_synonym pubkey = string

text \<open>
  One slot of \<open>RPC_ENDPOINTS\<close>: the first slot is \<open>process.env.REACT_APP_SOLANA_RPC_ENDPOINT\<close>,
  which is \<open>undefined\<close> when the variable is not set, so a slot is an optional URL.
\<close>
type_synonym endpoint = "string option"

text \<open>
  A JavaScript number. The values this program computes with (balances in SOL, a price in
  USD, their product) are modelled as exact rationals: every double is one, and the only
  arithmetic, the product at line 148, is taken exactly (its rounding to a double is not
  modelled).
\<close>
type_synonym js_number = rat

text \<open>A thrown JavaScript value, as the text \<open>console.error\<close> prints of it.\<close>
type_synonym js_error = string

section \<open>Proof collections\<close>

named_theorems dash_defs "definitions of the dashboard's state operations"
named_theorems view_defs "definitions of the dashboard's rendering"
named_theorems settle_elims "elimination rules of the handlers that resume an invocation"

section \<open>JavaScript truthiness of optional strings\<close>

text \<open>
  \<open>if (endpoint)\<close> and \<open>{error && ...}\<close>: \<open>undefined\<close>, \<open>null\<close> and the empty string are
  falsy, every other string is truthy.
\<close>

definition js_truthy_str :: "string option \<Rightarrow> bool" where
  "js_truthy_str v = (case v of None \<Rightarrow> False | Some u \<Rightarrow> u \<noteq> [])"

lemma js_truthy_str_simps [simp]:
  "js_truthy_str None = False"
  "js_truthy_str (Some u) = (u \<noteq> [])"
  by (simp_all add: js_truthy_str_def)

section \<open>Lists\<close>

text \<open>Removing the entry at a position, as a finished asynchronous call leaves the set of
  calls in flight.\<close>

definition remove_at :: "nat \<Rightarrow> 'a list \<Rightarrow> 'a list" where
  "remove_at i xs = take i xs @ drop (Suc i) xs"

lemma length_remove_at [simp]: "i < length xs \<Longrightarrow> length (remove_at i xs) = length xs - 1"
  by (simp add: remove_at_def)

lemma set_remove_at: "set (remove_at i xs) \<subseteq> set xs"
  by (auto simp: remove_at_def dest: in_set_takeD in_set_dropD)

lemma remove_at_Nil_iff: "i < length xs \<Longrightarrow> remove_at i xs = [] \<longleftrightarrow> length xs = 1"
  by (cases xs) (auto simp: remove_at_def)

lemma find_None_all: "find Q xs = None \<longleftrightarrow> (\<forall>x \<in> set xs. \<not> Q x)"
  by (auto simp: find_None_iff)

lemma find_Some_set: "find Q xs = Some y \<Longrightarrow> y \<in> set xs \<and> Q y"
  by (auto simp: find_Some_iff)

lemma sum_list_remove_at:
  fixes f :: "'a \<Rightarrow> nat"
  shows "i < length xs \<Longrightarrow> sum_list (map f (remove_at i xs)) + f (xs ! i) = sum_list (map f xs)"
proof -
  assume i: "i < length xs"
  have "xs = take i xs @ xs ! i # drop (Suc i) xs" using i by (rule id_take_nth_drop)
  then have "sum_list (map f xs) = sum_list (map f (take i xs)) + f (xs ! i) + sum_list (map f (drop (Suc i) xs))"
    by (metis add.assoc list.map(2) map_append sum_list.Cons sum_list_append)
  then show ?thesis by (simp add: remove_at_def ac_simps)
qed

lemma sum_list_update:
  fixes f :: "'a \<Rightarrow> nat"
  shows "i < length xs \<Longrightarrow> sum_list (map f (xs[i := x])) + f (xs ! i) = sum_list (map f xs) + f x"
proof -
  assume i: "i < length xs"
  have "xs = take i xs @ xs ! i # drop (Suc i) xs" using i by (rule id_take_nth_drop)
  then have "sum_list (map f xs) = sum_list (map f (take i xs)) + f (xs ! i) + sum_list (map f (drop (Suc i) xs))"
    by (metis add.assoc list.map(2) map_append sum_list.Cons sum_list_append)
  then show ?thesis using i by (simp add: upd_conv_take_nth_drop)
qed

end
