(* ===== verification/Endpoints.thy ===== *)
theory Endpoints
  imports Prelude
begin

text \<open>
  The endpoint fallback runner of the dashboard: the constant \<open>RPC_ENDPOINTS\<close>
  (page.tsx lines 10-14) and the loop \<open>tryRPCEndpoints\<close> (lines 40-53). The loop is a
  structural recursion over the endpoint list that records, besides its result, the
  endpoints it invoked the fetch function on and the \<open>console.error\<close> entries it wrote.
  Its specification \<open>rpc_spec\<close> says what the spec's section 4.1 promises: the value of
  the first present endpoint that succeeds, or \<open>AllEndpointsFailedError\<close>.
\<close>

section \<open>The endpoint list\<close>

text \<open>
  \<open>clusterApiUrl('mainnet-beta')\<close> of @solana/web3.js evaluates to the public mainnet URL;
  the Helius URL is the literal of line 12.
\<close>

definition helius_mainnet_url :: string where
  "helius_mainnet_url = ''https://mainnet.helius-rpc.com/?api-key=4c4a4f43-145d-4406-b89c-36ad977bb738''"

definition cluster_api_url_mainnet_beta :: string where
  "cluster_api_url_mainnet_beta = ''https://api.mainnet-beta.solana.com''"

definition rpc_endpoints :: "string option \<Rightarrow> endpoint list" where
  "rpc_endpoints env = [env, Some helius_mainnet_url, Some cluster_api_url_mainnet_beta]"

section \<open>The fallback loop\<close>

text \<open>\<open>throw new Error("All RPC endpoints failed")\<close> of line 52.\<close>

datatype rpc_error = All_rpc_endpoints_failed

text \<open>
  What one call of \<open>tryRPCEndpoints\<close> does: the endpoints on which the body of the \<open>try\<close>
  block ran (\<open>new Connection(endpoint)\<close> and \<open>fetchFunction\<close>), the log lines
  \<open>Error with endpoint ...\<close> with the caught error, and the returned value or the thrown
  error.
\<close>

record ('e, 'a) rpc_run =
  rpc_calls :: "string list"
  rpc_log :: "(string \<times> 'e) list"
  rpc_outcome :: "rpc_error + 'a"

text \<open>
  \<open>f u\<close> is the outcome of the \<open>try\<close> block for endpoint \<open>u\<close>: \<open>Inr\<close> the awaited
  value, \<open>Inl\<close> the error that \<open>catch\<close> receives. A slot is skipped when it is falsy
  (\<open>undefined\<close> or the empty string).
\<close>

fun try_rpc_endpoints :: "(string \<Rightarrow> 'e + 'a) \<Rightarrow> endpoint list \<Rightarrow> ('e, 'a) rpc_run" where
  "try_rpc_endpoints f [] =
     \<lparr>rpc_calls = [], rpc_log = [], rpc_outcome = Inl All_rpc_endpoints_failed\<rparr>"
| "try_rpc_endpoints f (ep # eps) =
     (if js_truthy_str ep then
        (case f (the ep) of
           Inr r \<Rightarrow> \<lparr>rpc_calls = [the ep], rpc_log = [], rpc_outcome = Inr r\<rparr>
         | Inl e \<Rightarrow>
             (let rest = try_rpc_endpoints f eps
              in rest\<lparr>rpc_calls := the ep # rpc_calls rest,
                      rpc_log := (the ep, e) # rpc_log rest\<rparr>))
      else try_rpc_endpoints f eps)"

section \<open>Specification\<close>

text \<open>The endpoints the loop may use: the truthy slots, in order.\<close>

fun present_endpoints :: "endpoint list \<Rightarrow> string list" where
  "present_endpoints [] = []"
| "present_endpoints (ep # eps) =
     (if js_truthy_str ep then the ep # present_endpoints eps else present_endpoints eps)"

text \<open>
  Section 4.1 of the spec: the first present endpoint on which the operation succeeds
  gives the result; if there is none, \<open>AllEndpointsFailedError\<close>.
\<close>

definition rpc_spec :: "(string \<Rightarrow> 'e + 'a) \<Rightarrow> endpoint list \<Rightarrow> rpc_error + 'a" where
  "rpc_spec f eps =
     (case find (\<lambda>u. \<not> isl (f u)) (present_endpoints eps) of
        None \<Rightarrow> Inl All_rpc_endpoints_failed
      | Some u \<Rightarrow> Inr (projr (f u)))"

text \<open>The failing prefix: the present endpoints before the first success.\<close>

abbreviation failing_prefix :: "(string \<Rightarrow> 'e + 'a) \<Rightarrow> endpoint list \<Rightarrow> string list" where
  "failing_prefix f eps \<equiv> takeWhile (\<lambda>u. isl (f u)) (present_endpoints eps)"

text \<open>
  The loop only depends on the present endpoints: removing the falsy slots first does not
  change what it does. Every property below is proved for the list of present endpoints
  and transported by this lemma.
\<close>

fun try_present :: "(string \<Rightarrow> 'e + 'a) \<Rightarrow> string list \<Rightarrow> ('e, 'a) rpc_run" where
  "try_present f [] =
     \<lparr>rpc_calls = [], rpc_log = [], rpc_outcome = Inl All_rpc_endpoints_failed\<rparr>"
| "try_present f (u # us) =
     (case f u of
        Inr r \<Rightarrow> \<lparr>rpc_calls = [u], rpc_log = [], rpc_outcome = Inr r\<rparr>
      | Inl e \<Rightarrow> (let rest = try_present f us
                  in rest\<lparr>rpc_calls := u # rpc_calls rest, rpc_log := (u, e) # rpc_log rest\<rparr>))"

section \<open>Lemmas\<close>

lemma endpoint_urls_nonempty [simp]:
  "helius_mainnet_url \<noteq> []" "cluster_api_url_mainnet_beta \<noteq> []"
  by (simp_all add: helius_mainnet_url_def cluster_api_url_mainnet_beta_def)

lemma try_rpc_endpoints_skip [simp]:
  "\<not> js_truthy_str ep \<Longrightarrow> try_rpc_endpoints f (ep # eps) = try_rpc_endpoints f eps"
  by simp

lemma try_rpc_endpoints_eq_present:
  "try_rpc_endpoints f eps = try_present f (present_endpoints eps)"
  by (induction eps) (auto simp: Let_def split: sum.splits)

lemma try_present_outcome:
  "rpc_outcome (try_present f us) =
     (case find (\<lambda>u. \<not> isl (f u)) us of
        None \<Rightarrow> Inl All_rpc_endpoints_failed
      | Some u \<Rightarrow> Inr (projr (f u)))"
  by (induction us) (auto simp: Let_def split: sum.splits)

lemma try_present_calls:
  "rpc_calls (try_present f us) = take (Suc (length (takeWhile (\<lambda>u. isl (f u)) us))) us"
  by (induction us) (auto simp: Let_def split: sum.splits)

lemma try_present_log:
  "rpc_log (try_present f us) = map (\<lambda>u. (u, projl (f u))) (takeWhile (\<lambda>u. isl (f u)) us)"
  by (induction us) (auto simp: Let_def split: sum.splits)

lemma rpc_outcome_first_success:
  "rpc_outcome (try_rpc_endpoints f eps) =
     (case find (\<lambda>u. \<not> isl (f u)) (present_endpoints eps) of
        None \<Rightarrow> Inl All_rpc_endpoints_failed
      | Some u \<Rightarrow> Inr (projr (f u)))"
  by (simp add: try_rpc_endpoints_eq_present try_present_outcome)

lemma present_endpoints_rpc_endpoints:
  "present_endpoints (rpc_endpoints env) =
     (if js_truthy_str env then [the env] else []) @ [helius_mainnet_url, cluster_api_url_mainnet_beta]"
  by (simp add: rpc_endpoints_def helius_mainnet_url_def cluster_api_url_mainnet_beta_def)

lemma rpc_log_present:
  "fst ` set (rpc_log (try_rpc_endpoints f eps)) \<subseteq> set (present_endpoints eps)"
  by (auto simp: try_rpc_endpoints_eq_present try_present_log dest: set_takeWhileD)

section \<open>Properties of the fallback loop\<close>

text \<open>
  C1. The loop implements its specification: its result is the value of the first present
  endpoint that succeeds, and \<open>All RPC endpoints failed\<close> when none does (spec 4.1).
\<close>

theorem try_rpc_endpoints_refines_spec:
  "rpc_outcome (try_rpc_endpoints f eps) = rpc_spec f eps"
  by (simp add: try_rpc_endpoints_eq_present try_present_outcome rpc_spec_def)

text \<open>
  C2. The loop invokes the operation on the present endpoints in order, up to and including
  the first one that succeeds, and on no endpoint after it; falsy slots are never used.
\<close>

theorem try_rpc_endpoints_stops_at_first_success:
  "rpc_calls (try_rpc_endpoints f eps) =
     take (Suc (length (failing_prefix f eps))) (present_endpoints eps)"
  by (simp add: try_rpc_endpoints_eq_present try_present_calls)

text \<open>
  C3. Every endpoint that failed before the result is logged once, in order, with the
  error its attempt raised; nothing else is logged.
\<close>

theorem try_rpc_endpoints_logs_failures:
  "rpc_log (try_rpc_endpoints f eps) = map (\<lambda>u. (u, projl (f u))) (failing_prefix f eps)"
  by (simp add: try_rpc_endpoints_eq_present try_present_log)

text \<open>
  C4. The loop throws \<open>All RPC endpoints failed\<close> exactly when every present endpoint
  fails, in particular when no slot is truthy.
\<close>

theorem try_rpc_endpoints_all_fail:
  "rpc_outcome (try_rpc_endpoints f eps) = Inl All_rpc_endpoints_failed \<longleftrightarrow>
     (\<forall>u \<in> set (present_endpoints eps). isl (f u))"
  by (auto simp: try_rpc_endpoints_eq_present try_present_outcome find_None_all
      dest: find_Some_set split: option.splits)

text \<open>
  C28. With the endpoint list of the dashboard, a call that throws has tried and logged two
  endpoints, or three when the environment variable is set to a non-empty URL.
\<close>

theorem rpc_endpoints_failure_log_bounds:
  "rpc_outcome (try_rpc_endpoints f (rpc_endpoints env)) = Inl All_rpc_endpoints_failed \<Longrightarrow>
     length (rpc_log (try_rpc_endpoints f (rpc_endpoints env))) = (if js_truthy_str env then 3 else 2)"
proof -
  assume fail: "rpc_outcome (try_rpc_endpoints f (rpc_endpoints env)) = Inl All_rpc_endpoints_failed"
  let ?us = "present_endpoints (rpc_endpoints env)"
  from fail have "find (\<lambda>u. \<not> isl (f u)) ?us = None"
    by (auto simp: rpc_outcome_first_success split: option.splits)
  then have "\<forall>u \<in> set ?us. isl (f u)" by (simp add: find_None_all)
  then have "takeWhile (\<lambda>u. isl (f u)) ?us = ?us" by simp
  then show ?thesis
    by (simp add: try_rpc_endpoints_eq_present try_present_log present_endpoints_rpc_endpoints)
qed

text \<open>At a list with an undefined slot and two failing endpoints the loop throws.\<close>

theorem try_rpc_endpoints_all_fail_witness:
  "rpc_outcome (try_rpc_endpoints (\<lambda>u. (Inl u :: string + nat)) [None, Some ''a'', Some ''b''])
     = Inl All_rpc_endpoints_failed"
  using try_rpc_endpoints_all_fail [of "\<lambda>u. (Inl u :: string + nat)" "[None, Some ''a'', Some ''b'']"]
  by simp

text \<open>When the environment slot is empty and both default endpoints fail, two lines are logged.\<close>

theorem rpc_endpoints_failure_log_bounds_witness:
  "length (rpc_log (try_rpc_endpoints (\<lambda>u. (Inl ''down'' :: string + nat)) (rpc_endpoints (Some '''')))) = 2"
proof -
  have h: "rpc_outcome (try_rpc_endpoints (\<lambda>u. (Inl ''down'' :: string + nat)) (rpc_endpoints (Some '''')))
             = Inl All_rpc_endpoints_failed"
    by (simp add: rpc_endpoints_def)
  from rpc_endpoints_failure_log_bounds [OF h] show ?thesis by simp
qed

end
