(* ===== verification/Fetchers.thy ===== *)
theory Fetchers
  imports Endpoints
begin

text \<open>
  The portfolio and transaction fetchers the dashboard calls. Their code lives in
  \<open>component/web3/portfolio\<close> and \<open>component/web3/fetchTransaction\<close>, which are not part
  of the sources under src/; they are modelled from the spec (sections 4.2 and 4.3) as the
  responses of a remote service, the record \<open>remote\<close>. What the dashboard itself does
  with them is modelled from page.tsx: the account shape (lines 16-24) and the
  \<open>Promise.all\<close> of lines 92-97, which runs three fallback loops and the price call and
  fails if any of them fails.
\<close>

section \<open>Data returned by the fetchers\<close>

text \<open>\<open>TokenAccount\<close> and \<open>StakeAccount\<close> have the same shape.\<close>

record account =
  acc_address :: string
  acc_balance :: js_number

text \<open>
  A transaction as the history service returns it, and the display record
  \<open>SimplifiedTransactionDetail\<close> the dashboard renders (spec 4.3): the signature verbatim,
  a message derived from the instruction type (a generic one when the type is unknown), a
  status label and a formatted date.
\<close>

record raw_transaction =
  raw_signature :: string
  raw_instruction :: "string option"
  raw_failed :: bool
  raw_date :: string

record tx_detail =
  tx_signature :: string
  tx_message :: string
  tx_status :: string
  tx_date :: string

definition unknown_transaction_message :: string where
  "unknown_transaction_message = ''Unknown transaction''"

definition simplify_transaction :: "raw_transaction \<Rightarrow> tx_detail" where
  "simplify_transaction t =
     \<lparr>tx_signature = raw_signature t,
      tx_message = (case raw_instruction t of None \<Rightarrow> unknown_transaction_message | Some m \<Rightarrow> m),
      tx_status = (if raw_failed t then ''failed'' else ''success''),
      tx_date = raw_date t\<rparr>"

section \<open>The remote services\<close>

text \<open>
  One response of every service the dashboard calls, as a function of the account and,
  for the RPC services, of the endpoint URL the \<open>Connection\<close> was made for. \<open>Inl\<close> is the
  error the call rejects with. A value of this record fixes one possible behaviour of the
  network; the theorems about the dashboard hold for all of them.
\<close>

record remote =
  get_sol_balance :: "pubkey \<Rightarrow> string \<Rightarrow> js_error + js_number"
  get_sol_price_in_usd :: "js_error + js_number"
  get_token_accounts :: "pubkey \<Rightarrow> string \<Rightarrow> js_error + account list"
  get_stake_accounts :: "pubkey \<Rightarrow> string \<Rightarrow> js_error + account list"
  get_transactions :: "pubkey \<Rightarrow> string \<Rightarrow> js_error + raw_transaction list"

text \<open>\<open>fetchTransactions(conn)\<close>: the history for the account, each entry simplified.\<close>

definition fetch_transactions :: "remote \<Rightarrow> pubkey \<Rightarrow> string \<Rightarrow> js_error + tx_detail list" where
  "fetch_transactions r k u = map_sum id (map simplify_transaction) (get_transactions r k u)"

section \<open>The portfolio batch: \<open>Promise.all\<close> of lines 92-97\<close>

text \<open>
  The values the batch resolves to, in the order of the array destructured at line 92.
\<close>

record portfolio =
  pf_balance :: js_number
  pf_price :: js_number
  pf_tokens :: "account list"
  pf_stakes :: "account list"

text \<open>
  The reason the batch rejects with, which the \<open>catch\<close> of line 106 receives: the error
  of a fallback loop or of the price call.
\<close>

datatype cycle_error = Rpc_failed rpc_error | Price_failed js_error

text \<open>
  \<open>Promise.all\<close> starts all four calls; none is cancelled when another fails, so the
  three loops run to their end and write their logs in any case. The batch resolves when
  all four resolve and rejects otherwise. Which rejection it reports is the first one in
  time; the model reports the first in array order, and the dashboard only logs it.
\<close>

definition promise_all4 ::
  "rpc_error + js_number \<Rightarrow> js_error + js_number \<Rightarrow> rpc_error + account list \<Rightarrow>
   rpc_error + account list \<Rightarrow> cycle_error + portfolio" where
  "promise_all4 b p t s =
     (case b of Inl e \<Rightarrow> Inl (Rpc_failed e) | Inr bal \<Rightarrow>
      case p of Inl e \<Rightarrow> Inl (Price_failed e) | Inr pr \<Rightarrow>
      case t of Inl e \<Rightarrow> Inl (Rpc_failed e) | Inr ts \<Rightarrow>
      case s of Inl e \<Rightarrow> Inl (Rpc_failed e) | Inr ss \<Rightarrow>
        Inr \<lparr>pf_balance = bal, pf_price = pr, pf_tokens = ts, pf_stakes = ss\<rparr>)"

definition fetch_portfolio ::
  "remote \<Rightarrow> pubkey \<Rightarrow> endpoint list \<Rightarrow> (string \<times> js_error) list \<times> (cycle_error + portfolio)" where
  "fetch_portfolio r k eps =
     (let b = try_rpc_endpoints (get_sol_balance r k) eps;
          t = try_rpc_endpoints (get_token_accounts r k) eps;
          s = try_rpc_endpoints (get_stake_accounts r k) eps
      in (rpc_log b @ rpc_log t @ rpc_log s,
          promise_all4 (rpc_outcome b) (get_sol_price_in_usd r) (rpc_outcome t) (rpc_outcome s)))"

section \<open>Lemmas\<close>

lemma fetch_portfolio_outcome:
  "snd (fetch_portfolio r k eps) =
     promise_all4 (rpc_spec (get_sol_balance r k) eps) (get_sol_price_in_usd r)
       (rpc_spec (get_token_accounts r k) eps) (rpc_spec (get_stake_accounts r k) eps)"
  by (simp add: fetch_portfolio_def rpc_outcome_first_success rpc_spec_def Let_def)

lemma fetch_transactions_spec:
  "rpc_spec (fetch_transactions r k) eps =
     map_sum id (map simplify_transaction) (rpc_spec (get_transactions r k) eps)"
proof -
  have "(\<lambda>u. \<not> isl (fetch_transactions r k u)) = (\<lambda>u. \<not> isl (get_transactions r k u))"
    by (simp add: fetch_transactions_def isl_map_sum)
  then show ?thesis
    by (auto simp: rpc_spec_def fetch_transactions_def map_sum_sel dest!: find_Some_set
        split: option.splits)
qed

lemma fetch_transactions_outcome:
  "rpc_outcome (try_rpc_endpoints (fetch_transactions r k) eps) =
     map_sum id (map simplify_transaction) (rpc_spec (get_transactions r k) eps)"
  using fetch_transactions_spec [of r k eps] by (simp add: rpc_outcome_first_success rpc_spec_def)

lemma promise_all4_Inr:
  "promise_all4 b p t s = Inr pf \<longleftrightarrow>
     b = Inr (pf_balance pf) \<and> p = Inr (pf_price pf) \<and> t = Inr (pf_tokens pf) \<and> s = Inr (pf_stakes pf)"
  by (auto simp: promise_all4_def split: sum.splits)

lemma promise_all4_Inl:
  "(\<exists>e. promise_all4 b p t s = Inl e) \<longleftrightarrow> isl b \<or> isl p \<or> isl t \<or> isl s"
  by (auto simp: promise_all4_def split: sum.splits)

lemma fetch_portfolio_log_present:
  "fst ` set (fst (fetch_portfolio r k eps)) \<subseteq> set (present_endpoints eps)"
  using rpc_log_present [of "get_sol_balance r k" eps] rpc_log_present [of "get_token_accounts r k" eps]
    rpc_log_present [of "get_stake_accounts r k" eps]
  by (auto simp: fetch_portfolio_def Let_def)

lemma rpc_outcome_isl:
  "isl (rpc_outcome (try_rpc_endpoints f eps)) \<longleftrightarrow> (\<forall>u \<in> set (present_endpoints eps). isl (f u))"
  by (auto simp: rpc_outcome_first_success find_None_all dest: find_Some_set split: option.splits)

section \<open>Properties of the batch\<close>

text \<open>
  C36. The batch rejects exactly when one of the three fallback loops finds no endpoint
  that answers or the price call fails: an account with no tokens or stakes (an empty
  list) is a success, and one endpoint answering is enough for each loop.
\<close>

theorem fetch_portfolio_rejects:
  "isl (snd (fetch_portfolio r k eps)) \<longleftrightarrow>
     (\<forall>u \<in> set (present_endpoints eps). isl (get_sol_balance r k u)) \<or> isl (get_sol_price_in_usd r) \<or>
     (\<forall>u \<in> set (present_endpoints eps). isl (get_token_accounts r k u)) \<or>
     (\<forall>u \<in> set (present_endpoints eps). isl (get_stake_accounts r k u))"
proof -
  have "isl (promise_all4 b p t s) \<longleftrightarrow> isl b \<or> isl p \<or> isl t \<or> isl s"
    for b p t and s :: "rpc_error + account list"
    by (auto simp: promise_all4_def split: sum.splits)
  then show ?thesis by (simp add: fetch_portfolio_def Let_def rpc_outcome_isl)
qed

end
