(* ===== verification/Dashboard.thy ===== *)
theory Dashboard
  imports Fetchers
begin

text \<open>
  The state and the handlers of the component \<open>Dashboard\<close> (page.tsx lines 26-120): its
  eight \<open>useState\<close> hooks as the record \<open>dash_state\<close>; \<open>toggleBalance\<close>,
  \<open>resetState\<close> and \<open>fetchAllData\<close>; and the two identical \<open>useEffect\<close> hooks on
  \<open>[connected, publicKey]\<close>.

  \<open>fetchAllData\<close> is asynchronous. Between its \<open>await\<close>s other events run: the wallet
  changes, the user clicks, other invocations of \<open>fetchAllData\<close> resume. So the component
  is modelled as a system of the React state plus the list of invocations in flight, each
  at the \<open>await\<close> it is suspended on, and an event is one atomic piece of JavaScript: a
  wallet change with the effects it runs, the resumption of one invocation after one of its
  \<open>await\<close>s (with the response the network gave), or a click. Which event comes next is
  not determined; the reachable states are those of every order.
\<close>

section \<open>The React state\<close>

record dash_state =
  sol_balance :: "js_number option"
  sol_price :: "js_number option"
  token_accounts :: "account list"
  stake_accounts :: "account list"
  loading :: bool
  error :: "string option"
  show_balance :: bool
  transactions :: "tx_detail list"

definition init_dash :: dash_state where
  "init_dash =
     \<lparr>sol_balance = None, sol_price = None, token_accounts = [], stake_accounts = [],
      loading = False, error = None, show_balance = False, transactions = []\<rparr>"

definition toggle_balance :: "dash_state \<Rightarrow> dash_state" where
  "toggle_balance d = d\<lparr>show_balance := \<not> show_balance d\<rparr>"

definition reset_state :: "dash_state \<Rightarrow> dash_state" where
  "reset_state d =
     d\<lparr>sol_balance := None, sol_price := None, token_accounts := [], stake_accounts := [],
       transactions := [], error := None, loading := False\<rparr>"

definition fetch_error_message :: string where
  "fetch_error_message = ''Error fetching data. Please try again later.''"

section \<open>Invocations of \<open>fetchAllData\<close> in flight\<close>

text \<open>
  An invocation waits either on the \<open>Promise.all\<close> of line 92 or on the transaction loop of
  line 104. It keeps the \<open>publicKey\<close> of the render that created it (the closure's).
\<close>

datatype cycle_pc = Awaiting_portfolio | Awaiting_transactions

record cycle =
  cycle_key :: pubkey
  cycle_pc :: cycle_pc

text \<open>The two kinds of \<open>console.error\<close> line: line 48 and line 107.\<close>

datatype log_entry = Endpoint_error string js_error | Fetch_data_error cycle_error

definition endpoint_entries :: "(string \<times> js_error) list \<Rightarrow> log_entry list" where
  "endpoint_entries entries = map (\<lambda>(u, e). Endpoint_error u e) entries"

text \<open>
  The whole component: React state, the fixed endpoint list, the dependency values
  \<open>[connected, publicKey]\<close> the effects last ran with (\<open>None\<close> before the first
  commit), the invocations in flight, and the console.
\<close>

record sys =
  dash :: dash_state
  endpoints :: "endpoint list"
  wallet :: "(bool \<times> pubkey option) option"
  pending :: "cycle list"
  console :: "log_entry list"

definition init_sys :: "string option \<Rightarrow> sys" where
  "init_sys env =
     \<lparr>dash = init_dash, endpoints = rpc_endpoints env, wallet = None, pending = [], console = []\<rparr>"

section \<open>Handlers\<close>

text \<open>
  \<open>fetchAllData\<close> up to its first \<open>await\<close> (lines 85-92): the early return without a
  key, then \<open>setLoading(true)\<close>, \<open>setError(null)\<close>, and the batch is started.
\<close>

definition fetch_all_data :: "pubkey option \<Rightarrow> sys \<Rightarrow> sys" where
  "fetch_all_data pk s =
     (case pk of
        None \<Rightarrow> s
      | Some k \<Rightarrow>
          s\<lparr>dash := (dash s)\<lparr>loading := True, error := None\<rparr>,
            pending := pending s @ [\<lparr>cycle_key = k, cycle_pc = Awaiting_portfolio\<rparr>]\<rparr>)"

text \<open>The body of each of the two effects (lines 67-73 and 114-120).\<close>

definition wallet_effect :: "bool \<Rightarrow> pubkey option \<Rightarrow> sys \<Rightarrow> sys" where
  "wallet_effect is_connected pk s =
     (if is_connected \<and> pk \<noteq> None then fetch_all_data pk s
      else s\<lparr>dash := reset_state (dash s)\<rparr>)"

text \<open>
  A commit with new wallet values: React runs the effects whose dependencies changed, in
  declaration order, so both bodies run, one after the other.
\<close>

definition commit_wallet :: "bool \<Rightarrow> pubkey option \<Rightarrow> sys \<Rightarrow> sys" where
  "commit_wallet is_connected pk s =
     (if wallet s = Some (is_connected, pk) then s
      else wallet_effect is_connected pk (wallet_effect is_connected pk (s\<lparr>wallet := Some (is_connected, pk)\<rparr>)))"

text \<open>
  Invocation \<open>i\<close> resumes after the \<open>Promise.all\<close> (lines 92-103 on success, 106-111 on
  failure). On success the four setters run and the transaction loop is started; on
  failure the \<open>catch\<close> logs and sets the error and \<open>finally\<close> clears \<open>loading\<close>. The
  endpoint failures of the three loops were logged on the way.
\<close>

definition settle_portfolio :: "remote \<Rightarrow> nat \<Rightarrow> sys \<Rightarrow> sys option" where
  "settle_portfolio r i s =
     (if i < length (pending s) \<and> cycle_pc (pending s ! i) = Awaiting_portfolio then
        (let c = pending s ! i;
             fp = fetch_portfolio r (cycle_key c) (endpoints s);
             out = console s @ endpoint_entries (fst fp)
         in Some (case snd fp of
              Inr p \<Rightarrow>
                s\<lparr>dash := (dash s)\<lparr>sol_balance := Some (pf_balance p), sol_price := Some (pf_price p),
                                    token_accounts := pf_tokens p, stake_accounts := pf_stakes p\<rparr>,
                  pending := (pending s)[i := c\<lparr>cycle_pc := Awaiting_transactions\<rparr>],
                  console := out\<rparr>
            | Inl e \<Rightarrow>
                s\<lparr>dash := (dash s)\<lparr>error := Some fetch_error_message, loading := False\<rparr>,
                  pending := remove_at i (pending s),
                  console := out @ [Fetch_data_error e]\<rparr>))
      else None)"

text \<open>
  Invocation \<open>i\<close> resumes after the transaction loop (lines 104-111): \<open>setTransactions\<close>
  on success, the \<open>catch\<close> on failure, and \<open>setLoading(false)\<close> in both cases.
\<close>

definition settle_transactions :: "remote \<Rightarrow> nat \<Rightarrow> sys \<Rightarrow> sys option" where
  "settle_transactions r i s =
     (if i < length (pending s) \<and> cycle_pc (pending s ! i) = Awaiting_transactions then
        (let c = pending s ! i;
             tr = try_rpc_endpoints (fetch_transactions r (cycle_key c)) (endpoints s);
             out = console s @ endpoint_entries (rpc_log tr)
         in Some (case rpc_outcome tr of
              Inr txs \<Rightarrow>
                s\<lparr>dash := (dash s)\<lparr>transactions := txs, loading := False\<rparr>,
                  pending := remove_at i (pending s), console := out\<rparr>
            | Inl e \<Rightarrow>
                s\<lparr>dash := (dash s)\<lparr>error := Some fetch_error_message, loading := False\<rparr>,
                  pending := remove_at i (pending s),
                  console := out @ [Fetch_data_error (Rpc_failed e)]\<rparr>))
      else None)"

section \<open>Events and runs\<close>

datatype event =
    Wallet_changed bool "pubkey option"
  | Portfolio_settled nat remote
  | Transactions_settled nat remote
  | Toggle_clicked

text \<open>
  One event; \<open>None\<close> when it cannot happen in this state. The toggle button is only
  rendered when the wallet is connected (line 122).
\<close>

fun dashboard_step :: "sys \<Rightarrow> event \<Rightarrow> sys option" where
  "dashboard_step s (Wallet_changed c pk) = Some (commit_wallet c pk s)"
| "dashboard_step s (Portfolio_settled i r) = settle_portfolio r i s"
| "dashboard_step s (Transactions_settled i r) = settle_transactions r i s"
| "dashboard_step s Toggle_clicked =
     (case wallet s of
        Some (True, _) \<Rightarrow> Some (s\<lparr>dash := toggle_balance (dash s)\<rparr>)
      | _ \<Rightarrow> None)"

fun dashboard_run :: "sys \<Rightarrow> event list \<Rightarrow> sys option" where
  "dashboard_run s [] = Some s"
| "dashboard_run s (e # es) =
     (case dashboard_step s e of None \<Rightarrow> None | Some s' \<Rightarrow> dashboard_run s' es)"

inductive reachable :: "string option \<Rightarrow> sys \<Rightarrow> bool" for env where
  start: "reachable env (init_sys env)"
| step: "reachable env s \<Longrightarrow> dashboard_step s e = Some s' \<Longrightarrow> reachable env s'"

text \<open>
  What every reachable state satisfies: balance and price are set and cleared together,
  the only error text is the fixed message, and nothing is loading when no invocation is
  in flight.
\<close>

definition dash_inv :: "sys \<Rightarrow> bool" where
  "dash_inv s \<longleftrightarrow>
     (sol_balance (dash s) = None \<longleftrightarrow> sol_price (dash s) = None) \<and>
     (error (dash s) = None \<or> error (dash s) = Some fetch_error_message) \<and>
     (pending s = [] \<longrightarrow> \<not> loading (dash s))"

text \<open>
  What every line the component writes satisfies: an endpoint named in an \<open>Error with
  endpoint\<close> line is one of the present endpoints of the list, never an unset slot.
\<close>

definition console_wf :: "endpoint list \<Rightarrow> log_entry list \<Rightarrow> bool" where
  "console_wf eps out \<longleftrightarrow>
     (\<forall>ent \<in> set out. case ent of
        Endpoint_error u e \<Rightarrow> u \<in> set (present_endpoints eps)
      | Fetch_data_error e \<Rightarrow> True)"

text \<open>
  Well-formedness of the component's state: the endpoint list is the one built from the
  environment, the console is well formed, and before the first commit nothing has run.
\<close>

definition sys_wf :: "string option \<Rightarrow> sys \<Rightarrow> bool" where
  "sys_wf env s \<longleftrightarrow>
     endpoints s = rpc_endpoints env \<and> console_wf (rpc_endpoints env) (console s) \<and>
     (wallet s = None \<longrightarrow> s = init_sys env)"

declare init_dash_def [dash_defs] toggle_balance_def [dash_defs] reset_state_def [dash_defs]
  fetch_all_data_def [dash_defs] wallet_effect_def [dash_defs] commit_wallet_def [dash_defs]

fun_cases dashboard_step_ToggleE: "dashboard_step s Toggle_clicked = Some s'"

section \<open>Lemmas\<close>

lemma reachable_run: "reachable env s \<Longrightarrow> dashboard_run s es = Some s' \<Longrightarrow> reachable env s'"
proof (induction es arbitrary: s)
  case Nil
  then show ?case by simp
next
  case (Cons e es)
  then obtain t where t: "dashboard_step s e = Some t" and "dashboard_run t es = Some s'"
    by (auto split: option.splits)
  with Cons show ?case by (blast intro: reachable.step)
qed

lemma reachable_init_run: "dashboard_run (init_sys env) es = Some s' \<Longrightarrow> reachable env s'"
  by (rule reachable_run [OF reachable.start])

lemma reset_state_idem [simp]: "reset_state (reset_state d) = reset_state d"
  by (simp add: reset_state_def)


lemma dash_inv_init: "dash_inv (init_sys env)"
  by (simp add: dash_inv_def init_sys_def init_dash_def)

lemma wallet_effect_inv: "dash_inv s \<Longrightarrow> dash_inv (wallet_effect c pk s)"
  by (auto simp: dash_inv_def wallet_effect_def fetch_all_data_def reset_state_def split: option.splits)

lemma commit_wallet_inv:
  assumes "dash_inv s" shows "dash_inv (commit_wallet c pk s)"
proof -
  from assms have "dash_inv (s\<lparr>wallet := Some (c, pk)\<rparr>)" by (simp add: dash_inv_def)
  with assms show ?thesis by (simp add: commit_wallet_def wallet_effect_inv)
qed

text \<open>
  The two ways an invocation can resume after \<open>Promise.all\<close>, and after the transaction
  loop, as elimination rules: most proofs about the handlers are a case analysis by them.
\<close>

lemma settle_portfolioE [settle_elims]:
  assumes "settle_portfolio r i s = Some s'"
  obtains (success) p where "i < length (pending s)" "cycle_pc (pending s ! i) = Awaiting_portfolio"
    "snd (fetch_portfolio r (cycle_key (pending s ! i)) (endpoints s)) = Inr p"
    "s' = s\<lparr>dash := (dash s)\<lparr>sol_balance := Some (pf_balance p), sol_price := Some (pf_price p),
                                token_accounts := pf_tokens p, stake_accounts := pf_stakes p\<rparr>,
            pending := (pending s)[i := (pending s ! i)\<lparr>cycle_pc := Awaiting_transactions\<rparr>],
            console := console s @ endpoint_entries (fst (fetch_portfolio r (cycle_key (pending s ! i)) (endpoints s)))\<rparr>"
  | (failure) e where "i < length (pending s)" "cycle_pc (pending s ! i) = Awaiting_portfolio"
    "snd (fetch_portfolio r (cycle_key (pending s ! i)) (endpoints s)) = Inl e"
    "s' = s\<lparr>dash := (dash s)\<lparr>error := Some fetch_error_message, loading := False\<rparr>,
            pending := remove_at i (pending s),
            console := console s @ endpoint_entries (fst (fetch_portfolio r (cycle_key (pending s ! i)) (endpoints s))) @
                       [Fetch_data_error e]\<rparr>"
  using assms by (auto simp: settle_portfolio_def Let_def split: if_splits sum.splits)

lemma settle_transactionsE [settle_elims]:
  assumes "settle_transactions r i s = Some s'"
  obtains (success) txs where "i < length (pending s)" "cycle_pc (pending s ! i) = Awaiting_transactions"
    "rpc_outcome (try_rpc_endpoints (fetch_transactions r (cycle_key (pending s ! i))) (endpoints s)) = Inr txs"
    "s' = s\<lparr>dash := (dash s)\<lparr>transactions := txs, loading := False\<rparr>, pending := remove_at i (pending s),
            console := console s @
              endpoint_entries (rpc_log (try_rpc_endpoints (fetch_transactions r (cycle_key (pending s ! i))) (endpoints s)))\<rparr>"
  | (failure) e where "i < length (pending s)" "cycle_pc (pending s ! i) = Awaiting_transactions"
    "rpc_outcome (try_rpc_endpoints (fetch_transactions r (cycle_key (pending s ! i))) (endpoints s)) = Inl e"
    "s' = s\<lparr>dash := (dash s)\<lparr>error := Some fetch_error_message, loading := False\<rparr>,
            pending := remove_at i (pending s),
            console := console s @
              endpoint_entries (rpc_log (try_rpc_endpoints (fetch_transactions r (cycle_key (pending s ! i))) (endpoints s))) @
              [Fetch_data_error (Rpc_failed e)]\<rparr>"
  using assms by (auto simp: settle_transactions_def Let_def split: if_splits sum.splits)

lemma settle_portfolio_inv:
  "dash_inv s \<Longrightarrow> settle_portfolio r i s = Some s' \<Longrightarrow> dash_inv s'"
  by (auto simp: dash_inv_def elim!: settle_portfolioE)

lemma settle_transactions_inv:
  "dash_inv s \<Longrightarrow> settle_transactions r i s = Some s' \<Longrightarrow> dash_inv s'"
  by (auto simp: dash_inv_def elim!: settle_transactionsE)

lemma dashboard_step_inv:
  assumes inv: "dash_inv s" and st: "dashboard_step s e = Some s'"
  shows "dash_inv s'"
proof (cases e)
  case (Wallet_changed c pk)
  then show ?thesis using st commit_wallet_inv [OF inv] by auto
next
  case (Portfolio_settled i r)
  then show ?thesis using st settle_portfolio_inv [OF inv] by auto
next
  case (Transactions_settled i r)
  then show ?thesis using st settle_transactions_inv [OF inv] by auto
next
  case Toggle_clicked
  with st obtain k where "wallet s = Some (True, k)" and "s' = s\<lparr>dash := toggle_balance (dash s)\<rparr>"
    by (auto elim: dashboard_step_ToggleE split: option.splits bool.splits prod.splits)
  with inv show ?thesis by (simp add: dash_inv_def toggle_balance_def)
qed

lemma reachable_dash_inv: "reachable env s \<Longrightarrow> dash_inv s"
  by (induction rule: reachable.induct) (auto intro: dash_inv_init dashboard_step_inv)

lemma settle_portfolio_Some:
  "settle_portfolio r i s = Some s' \<Longrightarrow>
     i < length (pending s) \<and> cycle_pc (pending s ! i) = Awaiting_portfolio"
  by (auto elim: settle_portfolioE)

lemma settle_transactions_Some:
  "settle_transactions r i s = Some s' \<Longrightarrow>
     i < length (pending s) \<and> cycle_pc (pending s ! i) = Awaiting_transactions"
  by (auto elim: settle_transactionsE)

lemma settle_portfolio_defined:
  "settle_portfolio r i s \<noteq> None \<longleftrightarrow> i < length (pending s) \<and> cycle_pc (pending s ! i) = Awaiting_portfolio"
  by (simp add: settle_portfolio_def Let_def)

lemma settle_transactions_defined:
  "settle_transactions r i s \<noteq> None \<longleftrightarrow> i < length (pending s) \<and> cycle_pc (pending s ! i) = Awaiting_transactions"
  by (simp add: settle_transactions_def Let_def)

lemma settle_portfolio_wallet:
  "settle_portfolio r i s = Some s' \<Longrightarrow> wallet s' = wallet s"
  by (auto elim!: settle_portfolioE)

lemma settle_transactions_wallet:
  "settle_transactions r i s = Some s' \<Longrightarrow> wallet s' = wallet s"
  by (auto elim!: settle_transactionsE)

lemma console_wf_append [simp]:
  "console_wf eps (xs @ ys) \<longleftrightarrow> console_wf eps xs \<and> console_wf eps ys"
  by (auto simp: console_wf_def)

lemma console_wf_simps [simp]:
  "console_wf eps []"
  "console_wf eps [Fetch_data_error e]"
  by (simp_all add: console_wf_def)

lemma console_wf_endpoint_entries:
  "fst ` set l \<subseteq> set (present_endpoints eps) \<Longrightarrow> console_wf eps (endpoint_entries l)"
  by (auto simp: console_wf_def endpoint_entries_def)

lemma wallet_effect_keeps:
  "endpoints (wallet_effect c pk s) = endpoints s \<and> console (wallet_effect c pk s) = console s \<and>
   wallet (wallet_effect c pk s) = wallet s"
  by (simp add: wallet_effect_def fetch_all_data_def split: option.splits)

lemma commit_wallet_wallet: "wallet (commit_wallet c pk s) = Some (c, pk)"
  by (simp add: commit_wallet_def wallet_effect_keeps)

lemma sys_wf_init: "sys_wf env (init_sys env)"
  by (simp add: sys_wf_def init_sys_def)

lemma commit_wallet_sys_wf: "sys_wf env s \<Longrightarrow> sys_wf env (commit_wallet c pk s)"
  by (simp add: sys_wf_def commit_wallet_def wallet_effect_keeps)

lemma sys_wf_pending: "sys_wf env s \<Longrightarrow> pending s \<noteq> [] \<Longrightarrow> wallet s \<noteq> None"
  by (auto simp: sys_wf_def init_sys_def)

lemma settle_portfolio_sys_wf:
  assumes wf: "sys_wf env s" and st: "settle_portfolio r i s = Some s'"
  shows "sys_wf env s'"
proof -
  from st have "pending s \<noteq> []" by (auto dest: settle_portfolio_Some)
  with wf have "wallet s' \<noteq> None" by (simp add: sys_wf_pending settle_portfolio_wallet [OF st])
  moreover have "console_wf (endpoints s) (endpoint_entries (fst (fetch_portfolio r k (endpoints s))))" for k
    by (rule console_wf_endpoint_entries [OF fetch_portfolio_log_present])
  ultimately show ?thesis using wf st
    by (auto simp: sys_wf_def elim!: settle_portfolioE)
qed

lemma settle_transactions_sys_wf:
  assumes wf: "sys_wf env s" and st: "settle_transactions r i s = Some s'"
  shows "sys_wf env s'"
proof -
  from st have "pending s \<noteq> []" by (auto dest: settle_transactions_Some)
  with wf have "wallet s' \<noteq> None" by (simp add: sys_wf_pending settle_transactions_wallet [OF st])
  moreover have "console_wf (endpoints s) (endpoint_entries (rpc_log (try_rpc_endpoints f (endpoints s))))" for f
    by (rule console_wf_endpoint_entries [OF rpc_log_present])
  ultimately show ?thesis using wf st
    by (auto simp: sys_wf_def elim!: settle_transactionsE)
qed

lemma dashboard_step_sys_wf:
  assumes wf: "sys_wf env s" and st: "dashboard_step s e = Some s'"
  shows "sys_wf env s'"
proof (cases e)
  case (Wallet_changed c pk)
  then show ?thesis using st commit_wallet_sys_wf [OF wf] by auto
next
  case (Portfolio_settled i r)
  then show ?thesis using st settle_portfolio_sys_wf [OF wf] by auto
next
  case (Transactions_settled i r)
  then show ?thesis using st settle_transactions_sys_wf [OF wf] by auto
next
  case Toggle_clicked
  with st obtain k where "wallet s = Some (True, k)" and "s' = s\<lparr>dash := toggle_balance (dash s)\<rparr>"
    by (auto elim: dashboard_step_ToggleE split: option.splits bool.splits prod.splits)
  with wf show ?thesis by (simp add: sys_wf_def)
qed

lemma commit_wallet_changed:
  "wallet s \<noteq> Some (c, pk) \<Longrightarrow>
     commit_wallet c pk s = wallet_effect c pk (wallet_effect c pk (s\<lparr>wallet := Some (c, pk)\<rparr>))"
  by (simp add: commit_wallet_def)

section \<open>Properties of the handlers\<close>

text \<open>
  C5. Clicking the toggle only flips \<open>showBalance\<close>: no invocation is started, no data,
  loading flag, error or log changes (spec section 8: toggling never fetches).
\<close>

theorem toggle_changes_only_visibility:
  "dashboard_step s Toggle_clicked = Some s' \<Longrightarrow>
     s' = s\<lparr>dash := (dash s)\<lparr>show_balance := \<not> show_balance (dash s)\<rparr>\<rparr>"
  by (auto elim: dashboard_step_ToggleE simp: toggle_balance_def split: option.splits bool.splits prod.splits)

text \<open>
  C6. When the wallet disconnects (or reports no key) the effects reset the state: no
  balance, price, accounts or transactions, \<open>loading\<close> false, no error; the visibility
  flag is kept. Invocations in flight are not cancelled.
\<close>

theorem disconnect_resets_state:
  "\<not> (c \<and> pk \<noteq> None) \<Longrightarrow> wallet s \<noteq> Some (c, pk) \<Longrightarrow>
   dashboard_step s (Wallet_changed c pk) = Some s' \<Longrightarrow>
     sol_balance (dash s') = None \<and> sol_price (dash s') = None \<and>
     token_accounts (dash s') = [] \<and> stake_accounts (dash s') = [] \<and> transactions (dash s') = [] \<and>
     error (dash s') = None \<and> \<not> loading (dash s') \<and> show_balance (dash s') = show_balance (dash s) \<and>
     pending s' = pending s \<and> console s' = console s"
  by (auto simp: commit_wallet_changed wallet_effect_def reset_state_def)

text \<open>
  C7. A connection with a key starts \<open>fetchAllData\<close> twice, once per effect: two
  invocations for the key are added, \<open>loading\<close> is set and the error cleared, and the
  data shown so far is kept until an invocation resumes.
\<close>

theorem connect_starts_two_fetches:
  "wallet s \<noteq> Some (True, Some k) \<Longrightarrow>
   dashboard_step s (Wallet_changed True (Some k)) = Some s' \<Longrightarrow>
     pending s' = pending s @ [\<lparr>cycle_key = k, cycle_pc = Awaiting_portfolio\<rparr>,
                               \<lparr>cycle_key = k, cycle_pc = Awaiting_portfolio\<rparr>] \<and>
     loading (dash s') \<and> error (dash s') = None \<and>
     dash s' = (dash s)\<lparr>loading := True, error := None\<rparr>"
  by (auto simp: commit_wallet_changed wallet_effect_def fetch_all_data_def)

text \<open>
  C8. When the portfolio batch of an invocation fails, the error message is set and
  \<open>loading\<close> cleared, but the balance, price, accounts and transactions shown before are
  left in place, and the failure is logged.
\<close>

theorem portfolio_failure_keeps_previous_data:
  "settle_portfolio r i s = Some s' \<Longrightarrow>
   isl (snd (fetch_portfolio r (cycle_key (pending s ! i)) (endpoints s))) \<Longrightarrow>
     error (dash s') = Some fetch_error_message \<and> \<not> loading (dash s') \<and>
     sol_balance (dash s') = sol_balance (dash s) \<and> sol_price (dash s') = sol_price (dash s) \<and>
     token_accounts (dash s') = token_accounts (dash s) \<and>
     stake_accounts (dash s') = stake_accounts (dash s) \<and>
     transactions (dash s') = transactions (dash s) \<and>
     pending s' = remove_at i (pending s)"
  by (auto elim!: settle_portfolioE)

text \<open>
  C9. When the transaction loop of an invocation fails, the error is set and \<open>loading\<close>
  cleared, while the portfolio this invocation has just shown stays and the transactions
  of an earlier invocation stay too.
\<close>

theorem transactions_failure_keeps_portfolio:
  "settle_transactions r i s = Some s' \<Longrightarrow>
   isl (rpc_outcome (try_rpc_endpoints (fetch_transactions r (cycle_key (pending s ! i))) (endpoints s))) \<Longrightarrow>
     error (dash s') = Some fetch_error_message \<and> \<not> loading (dash s') \<and>
     sol_balance (dash s') = sol_balance (dash s) \<and> sol_price (dash s') = sol_price (dash s) \<and>
     token_accounts (dash s') = token_accounts (dash s) \<and>
     stake_accounts (dash s') = stake_accounts (dash s) \<and>
     transactions (dash s') = transactions (dash s)"
  by (auto elim!: settle_transactionsE)

text \<open>C10. In every reachable state the balance and the price are both set or both unset.\<close>

theorem reachable_balance_iff_price:
  "reachable env s \<Longrightarrow> (sol_balance (dash s) = None \<longleftrightarrow> sol_price (dash s) = None)"
  using reachable_dash_inv by (auto simp: dash_inv_def)

text \<open>C11. In every reachable state the only error text is the fixed user-facing message.\<close>

theorem reachable_error_generic:
  "reachable env s \<Longrightarrow> error (dash s) = None \<or> error (dash s) = Some fetch_error_message"
  using reachable_dash_inv by (auto simp: dash_inv_def)

text \<open>C12. In every reachable state with no invocation in flight, \<open>loading\<close> is false.\<close>

theorem reachable_idle_not_loading:
  "reachable env s \<Longrightarrow> pending s = [] \<Longrightarrow> \<not> loading (dash s)"
  using reachable_dash_inv by (auto simp: dash_inv_def)

text \<open>
  C29. Every reachable state is well formed: the endpoint list is the one built from the
  environment, each \<open>Error with endpoint\<close> line names a present endpoint (an unset
  environment slot is never tried or logged), and before the first commit nothing has run.
\<close>

theorem reachable_sys_wf: "reachable env s \<Longrightarrow> sys_wf env s"
  by (induction rule: reachable.induct) (auto intro: sys_wf_init dashboard_step_sys_wf)

end
