(* ===== verification/Formatting.thy ===== *)
theory Formatting
  imports Prelude
begin

text \<open>
  How the dashboard turns numbers into text (page.tsx lines 65 and 142-168):
  \<open>obfuscateValue\<close>, which masks a string by stars of the same length;
  \<open>toFixed(2)\<close> on the balance and on the balance times the price; and the decimal
  text React renders for a count (\<open>tokenAccounts.length\<close>). \<open>toFixed(2)\<close> follows
  the ECMAScript algorithm for a number below 1e21: the sign, then the integer
  \<open>n\<close> with \<open>n / 100\<close> nearest to the magnitude (the larger one on a tie), written in
  decimal, padded with zeros to three digits and split before the last two. Numbers of
  1e21 or more, which \<open>toFixed\<close> prints in exponent form, are not modelled: no
  balance or USD value reaches them. The reader \<open>fixed_value\<close> gives the number such a text
  denotes and states what the printed value means.
\<close>

section \<open>Definitions\<close>

definition obfuscate_value :: "string \<Rightarrow> string" where
  "obfuscate_value v = replicate (length v) (CHR ''*'')"

definition digit_char :: "nat \<Rightarrow> char" where
  "digit_char d = char_of (48 + d)"

fun nat_digits :: "nat \<Rightarrow> string" where
  "nat_digits n = (if n < 10 then [digit_char n] else nat_digits (n div 10) @ [digit_char (n mod 10)])"

declare nat_digits.simps [simp del]

definition fixed2_digits :: "nat \<Rightarrow> string" where
  "fixed2_digits n =
     (let m = nat_digits n;
          m' = (if length m \<le> 2 then replicate (3 - length m) (CHR ''0'') @ m else m);
          k = length m'
      in take (k - 2) m' @ ''.'' @ drop (k - 2) m')"

definition to_fixed2 :: "js_number \<Rightarrow> string" where
  "to_fixed2 x = (if x < 0 then ''-'' else []) @ fixed2_digits (nat \<lfloor>\<bar>x\<bar> * 100 + 1 / 2\<rfloor>)"

definition char_digit :: "char \<Rightarrow> nat" where
  "char_digit c = of_char c - 48"

definition digits_value :: "string \<Rightarrow> nat" where
  "digits_value cs = foldl (\<lambda>acc c. 10 * acc + char_digit c) 0 cs"

definition fixed_value :: "string \<Rightarrow> rat" where
  "fixed_value s =
     (let neg = (s \<noteq> [] \<and> hd s = CHR ''-'');
          t = (if neg then tl s else s);
          ip = takeWhile (\<lambda>c. c \<noteq> CHR ''.'') t;
          fp = drop 1 (dropWhile (\<lambda>c. c \<noteq> CHR ''.'') t)
      in (if neg then -1 else 1) * (of_nat (digits_value ip) + of_nat (digits_value fp) / 10 ^ length fp))"

section \<open>Lemmas\<close>

lemma char_digit_digit_char [simp]: "d < 10 \<Longrightarrow> char_digit (digit_char d) = d"
  by (simp add: char_digit_def digit_char_def)

lemma of_char_digit_char: "d < 10 \<Longrightarrow> of_char (digit_char d) = 48 + d"
  by (simp add: digit_char_def)

lemma digit_char_not_dot [simp]: "d < 10 \<Longrightarrow> digit_char d \<noteq> CHR ''.''"
proof
  assume "d < 10" and "digit_char d = CHR ''.''"
  then have "of_char (digit_char d) = (of_char (CHR ''.'') :: nat)" by simp
  with \<open>d < 10\<close> show False by (simp add: of_char_digit_char)
qed

lemma digit_char_not_minus [simp]: "d < 10 \<Longrightarrow> digit_char d \<noteq> CHR ''-''"
proof
  assume "d < 10" and "digit_char d = CHR ''-''"
  then have "of_char (digit_char d) = (of_char (CHR ''-'') :: nat)" by simp
  with \<open>d < 10\<close> show False by (simp add: of_char_digit_char)
qed

lemma digit_char_0: "digit_char 0 = CHR ''0''"
  by code_simp

lemma nat_digits_small: "n < 10 \<Longrightarrow> nat_digits n = [digit_char n]"
  by (simp add: nat_digits.simps)

lemma nat_digits_large: "10 \<le> n \<Longrightarrow> nat_digits n = nat_digits (n div 10) @ [digit_char (n mod 10)]"
  by (subst nat_digits.simps) simp

lemma nat_digits_chars: "c \<in> set (nat_digits n) \<Longrightarrow> \<exists>d < 10. c = digit_char d"
proof (induction n rule: nat_digits.induct)
  case (1 n)
  show ?case
  proof (cases "n < 10")
    case True
    with "1.prems" show ?thesis by (auto simp: nat_digits_small)
  next
    case False
    with "1.prems" have "c \<in> set (nat_digits (n div 10)) \<or> c = digit_char (n mod 10)"
      by (auto simp: nat_digits_large)
    moreover have "n mod 10 < 10" by simp
    ultimately show ?thesis using False "1.IH" by blast
  qed
qed

lemma nat_digits_ne [simp]: "nat_digits n \<noteq> []"
  by (cases "n < 10") (simp_all add: nat_digits_small nat_digits_large)

lemma digits_value_snoc: "digits_value (xs @ [c]) = 10 * digits_value xs + char_digit c"
  by (simp add: digits_value_def)

lemma digits_value_nat_digits: "digits_value (nat_digits n) = n"
proof (induction n rule: nat_digits.induct)
  case (1 n)
  show ?case
  proof (cases "n < 10")
    case True
    then show ?thesis by (simp add: nat_digits_small digits_value_def)
  next
    case False
    with "1.IH" show ?thesis by (simp add: nat_digits_large digits_value_snoc)
  qed
qed

lemma nat_digits_two: "10 \<le> n \<Longrightarrow> n < 100 \<Longrightarrow> nat_digits n = [digit_char (n div 10), digit_char (n mod 10)]"
  by (simp add: nat_digits_large nat_digits_small)

lemma nat_digits_hundreds:
  "100 \<le> n \<Longrightarrow> nat_digits n = nat_digits (n div 100) @ [digit_char (n div 10 mod 10), digit_char (n mod 10)]"
proof -
  assume "100 \<le> n"
  then have "10 \<le> n div 10" by simp
  then have "nat_digits (n div 10) = nat_digits (n div 10 div 10) @ [digit_char (n div 10 mod 10)]"
    by (rule nat_digits_large)
  moreover from \<open>100 \<le> n\<close> have "nat_digits n = nat_digits (n div 10) @ [digit_char (n mod 10)]"
    by (simp add: nat_digits_large)
  moreover have "n div 10 div 10 = n div 100" by (simp add: div_mult2_eq)
  ultimately show ?thesis by simp
qed

lemma fixed2_digits_split:
  "fixed2_digits n = nat_digits (n div 100) @ ''.'' @ [digit_char (n div 10 mod 10), digit_char (n mod 10)]"
proof -
  consider (one) "n < 10" | (two) "10 \<le> n" "n < 100" | (more) "100 \<le> n" by linarith
  then show ?thesis
  proof cases
    case one
    then have "replicate (3 - length (nat_digits n)) (CHR ''0'') @ nat_digits n =
                 [CHR ''0'', CHR ''0'', digit_char n]"
      by (simp add: nat_digits_small numeral_3_eq_3)
    with one show ?thesis
      by (simp add: fixed2_digits_def Let_def nat_digits_small digit_char_0)
  next
    case two
    then show ?thesis
      by (simp add: fixed2_digits_def Let_def nat_digits_two nat_digits_small digit_char_0)
  next
    case more
    then have "2 < length (nat_digits n)" by (simp add: nat_digits_hundreds)
    with more show ?thesis
      by (simp add: fixed2_digits_def Let_def nat_digits_hundreds)
  qed
qed

lemma nat_digits_no_dot: "\<forall>c \<in> set (nat_digits n). c \<noteq> CHR ''.''"
proof
  fix c assume "c \<in> set (nat_digits n)"
  then obtain d where "d < 10" "c = digit_char d" using nat_digits_chars by blast
  then show "c \<noteq> CHR ''.''" by simp
qed

lemma hd_nat_digits_not_minus: "hd (nat_digits n) \<noteq> CHR ''-''"
proof -
  have "hd (nat_digits n) \<in> set (nat_digits n)" by simp
  then show ?thesis using nat_digits_chars by fastforce
qed

lemma fixed_value_fixed2_digits:
  "fixed_value (sign @ fixed2_digits n) = (if sign = ''-'' then -1 else 1) * of_nat n / 100"
  if "sign = ''-'' \<or> sign = []"
proof -
  let ?D = "nat_digits (n div 100)"
  have t: "takeWhile (\<lambda>c. c \<noteq> CHR ''.'') (?D @ [CHR ''.'', digit_char (n div 10 mod 10), digit_char (n mod 10)]) = ?D"
    by (simp add: takeWhile_append2 nat_digits_no_dot)
  have d: "dropWhile (\<lambda>c. c \<noteq> CHR ''.'') (?D @ [CHR ''.'', digit_char (n div 10 mod 10), digit_char (n mod 10)]) =
             [CHR ''.'', digit_char (n div 10 mod 10), digit_char (n mod 10)]"
    by (simp add: dropWhile_append2 nat_digits_no_dot)
  have two: "digits_value [digit_char (n div 10 mod 10), digit_char (n mod 10)] = n mod 100"
    using mod_mult2_eq [of n 10 10] by (simp add: digits_value_def)
  have v: "of_nat (n div 100) + of_nat (n mod 100) / (100::rat) = of_nat n / 100"
  proof -
    have "n = n div 100 * 100 + n mod 100" by simp
    then have "(of_nat n :: rat) = of_nat (n div 100) * 100 + of_nat (n mod 100)"
      by (metis of_nat_add of_nat_mult of_nat_numeral)
    then show ?thesis by (simp add: field_simps)
  qed
  have w: "(of_nat (n div 100) * 100 + of_nat (n mod 100) :: rat) = of_nat n"
    by (metis of_nat_add of_nat_mult of_nat_numeral div_mult_mod_eq)
  from that show ?thesis
    by (auto simp: fixed_value_def Let_def fixed2_digits_split t d two digits_value_nat_digits v w
        hd_nat_digits_not_minus)
qed

lemma fixed_value_to_fixed2:
  "fixed_value (to_fixed2 x) = (if x < 0 then -1 else 1) * of_int \<lfloor>\<bar>x\<bar> * 100 + 1 / 2\<rfloor> / 100"
proof -
  have nn: "0 \<le> \<lfloor>\<bar>x\<bar> * 100 + 1 / 2\<rfloor>" by simp
  then have "(of_nat (nat \<lfloor>\<bar>x\<bar> * 100 + 1 / 2\<rfloor>) :: rat) = of_int \<lfloor>\<bar>x\<bar> * 100 + 1 / 2\<rfloor>"
    by simp
  then show ?thesis
    using fixed_value_fixed2_digits [of "if x < 0 then ''-'' else []"]
    by (auto simp: to_fixed2_def)
qed

section \<open>Properties of the number formatting\<close>

text \<open>
  C19. What \<open>toFixed(2)\<close> prints denotes the number to within half a cent: reading the
  text back gives a value at most 1/200 away from the number formatted.
\<close>

theorem to_fixed2_within_half_cent: "\<bar>fixed_value (to_fixed2 x) - x\<bar> \<le> 1 / 200"
proof -
  let ?f = "\<lfloor>\<bar>x\<bar> * 100 + 1 / 2\<rfloor>"
  have lo: "of_int ?f \<le> \<bar>x\<bar> * 100 + 1 / 2" by (rule of_int_floor_le)
  have hi: "\<bar>x\<bar> * 100 + 1 / 2 < of_int ?f + 1"
    using floor_correct [of "\<bar>x\<bar> * 100 + 1 / 2"] by simp
  have "\<bar>of_int ?f / 100 - \<bar>x\<bar>\<bar> \<le> 1 / 200"
  proof -
    obtain F a where "F = (of_int ?f :: rat)" and "a = \<bar>x\<bar>" by blast
    with lo hi have "F \<le> a * 100 + 1 / 2" "a * 100 + 1 / 2 < F + 1" by simp_all
    then have "\<bar>F / 100 - a\<bar> \<le> 1 / 200" unfolding abs_le_iff by linarith
    with \<open>F = of_int ?f\<close> \<open>a = \<bar>x\<bar>\<close> show ?thesis by simp
  qed
  then show ?thesis
    by (cases "x < 0") (auto simp: fixed_value_to_fixed2 abs_if split: if_splits)
qed

text \<open>
  C20. The ECMAScript steps (pad the digits of \<open>n\<close> to three, split before the last two)
  print the sign, the digits of \<open>n div 100\<close>, a point and exactly the two digits
  \<open>n div 10 mod 10\<close> and \<open>n mod 10\<close>.
\<close>

theorem to_fixed2_digits:
  "to_fixed2 x =
     (if x < 0 then ''-'' else []) @
     nat_digits (nat \<lfloor>\<bar>x\<bar> * 100 + 1 / 2\<rfloor> div 100) @ ''.'' @
     [digit_char (nat \<lfloor>\<bar>x\<bar> * 100 + 1 / 2\<rfloor> div 10 mod 10),
      digit_char (nat \<lfloor>\<bar>x\<bar> * 100 + 1 / 2\<rfloor> mod 10)]"
  by (simp add: to_fixed2_def fixed2_digits_split)

text \<open>
  C37. Round trip: an amount in whole cents is printed exactly. Reading back the text
  \<open>toFixed(2)\<close> prints for \<open>n / 100\<close> gives \<open>n / 100\<close>, for every integer \<open>n\<close> of either
  sign.
\<close>

theorem to_fixed2_cents_roundtrip: "fixed_value (to_fixed2 (of_int n / 100)) = of_int n / 100"
proof -
  have "\<bar>of_int n / 100 :: rat\<bar> * 100 + 1 / 2 = of_int \<bar>n\<bar> + 1 / 2" by simp
  then have f: "\<lfloor>\<bar>of_int n / 100 :: rat\<bar> * 100 + 1 / 2\<rfloor> = \<bar>n\<bar>" by linarith
  have h: "\<lfloor>1 / 2 :: rat\<rfloor> = 0" by (simp add: floor_eq_iff)
  show ?thesis
    by (cases "n < 0") (auto simp: fixed_value_to_fixed2 f h)
qed

end
