(* ===== verification/View.thy ===== *)
theory View
  imports Dashboard Formatting
begin

text \<open>
  What the component renders (page.tsx lines 59-63 and 122-246), as a function of the
  wallet's \<open>connected\<close> and \<open>publicKey\<close> and of the React state. The view keeps the text
  the user reads: the prompt when no wallet is connected; otherwise the toggle, the balance
  card (masked by \<open>obfuscateValue\<close> unless \<open>showBalance\<close>), the loading and error
  paragraphs, the address, the transaction panel with its explorer links, and the static
  pie chart. Markup, styling and icons other than the toggle's are left out.
\<close>

section \<open>The view\<close>

record balance_card =
  usd_text :: string
  sol_text :: string
  nft_text :: string
  stake_text :: string

record tx_item =
  item_key :: string
  item_message :: string
  item_status :: string
  item_href :: string
  item_label :: string
  item_date :: string

datatype tx_panel = Tx_loading | Tx_error string | Tx_list "tx_item list"

record chart_slice =
  slice_id :: nat
  slice_value :: nat
  slice_color :: string
  slice_label :: string

datatype eye_icon = Fa_eye | Fa_eye_slash

record dashboard_view =
  toggle_icon :: eye_icon
  toggle_label :: string
  balance_section :: "balance_card option"
  loading_note :: "string option"
  error_note :: "string option"
  connect_label :: string
  address_text :: "string option"
  tx_section :: tx_panel
  chart :: "chart_slice list"

datatype view = Connect_prompt | Dashboard_page dashboard_view

section \<open>Rendering\<close>

text \<open>The static series of the pie chart (lines 59-63).\<close>

definition chart_data :: "chart_slice list" where
  "chart_data =
     [\<lparr>slice_id = 0, slice_value = 10, slice_color = ''#8cff05'', slice_label = ''series A''\<rparr>,
      \<lparr>slice_id = 1, slice_value = 15, slice_color = ''#4e9002'', slice_label = ''series B''\<rparr>,
      \<lparr>slice_id = 2, slice_value = 20, slice_color = ''#1f3a00'', slice_label = ''series C''\<rparr>]"

definition explorer_tx_prefix :: string where
  "explorer_tx_prefix = ''https://explorer.solana.com/tx/''"

text \<open>One list item of the transaction panel (lines 197-210).\<close>

definition render_tx :: "tx_detail \<Rightarrow> tx_item" where
  "render_tx tx =
     \<lparr>item_key = tx_signature tx, item_message = tx_message tx, item_status = tx_status tx,
      item_href = explorer_tx_prefix @ tx_signature tx,
      item_label = take 8 (tx_signature tx) @ ''...'', item_date = tx_date tx\<rparr>"

text \<open>
  The balance card (lines 142-171): only when balance and price are both set; each figure
  is shown with \<open>toFixed(2)\<close> or as a count when \<open>showBalance\<close> is on, and as the stars of
  a fixed sample string otherwise.
\<close>

definition render_balance :: "dash_state \<Rightarrow> balance_card option" where
  "render_balance d =
     (case (sol_balance d, sol_price d) of
        (Some b, Some p) \<Rightarrow>
          Some \<lparr>usd_text = ''$'' @ (if show_balance d then to_fixed2 (b * p) else obfuscate_value ''1000''),
                sol_text = (if show_balance d then to_fixed2 b else obfuscate_value ''0.82456098'') @ '' SOL'',
                nft_text = (if show_balance d then nat_digits (length (token_accounts d))
                            else obfuscate_value ''10'') @ '' NFTs'',
                stake_text = (if show_balance d then nat_digits (length (stake_accounts d))
                              else obfuscate_value ''10'') @ '' Stakes''\<rparr>
      | _ \<Rightarrow> None)"

text \<open>The transaction panel (lines 191-212): loading first, then the error, then the list.\<close>

definition render_tx_panel :: "dash_state \<Rightarrow> tx_panel" where
  "render_tx_panel d =
     (if loading d then Tx_loading
      else if js_truthy_str (error d) then Tx_error (''Error: '' @ the (error d))
      else Tx_list (map render_tx (transactions d)))"

definition render :: "bool \<Rightarrow> pubkey option \<Rightarrow> dash_state \<Rightarrow> view" where
  "render is_connected pk d =
     (if \<not> is_connected then Connect_prompt
      else Dashboard_page
        \<lparr>toggle_icon = (if show_balance d then Fa_eye_slash else Fa_eye),
         toggle_label = (if show_balance d then ''Hide Balance'' else ''View Balance''),
         balance_section = render_balance d,
         loading_note = (if loading d then Some ''Loading...'' else None),
         error_note = (if js_truthy_str (error d) then error d else None),
         connect_label = (if is_connected then ''Connected'' else ''Connect Wallet''),
         address_text = pk,
         tx_section = render_tx_panel d,
         chart = chart_data\<rparr>)"

declare render_def [view_defs] render_balance_def [view_defs] render_tx_panel_def [view_defs]
  render_tx_def [view_defs]

section \<open>Lemmas\<close>

lemma obfuscate_value_samples:
  "obfuscate_value ''1000'' = ''****''"
  "obfuscate_value ''0.82456098'' = ''**********''"
  "obfuscate_value ''10'' = ''**''"
  by (simp_all add: obfuscate_value_def)

lemma render_connected:
  "render True pk d = Dashboard_page v \<Longrightarrow>
     v = \<lparr>toggle_icon = (if show_balance d then Fa_eye_slash else Fa_eye),
          toggle_label = (if show_balance d then ''Hide Balance'' else ''View Balance''),
          balance_section = render_balance d,
          loading_note = (if loading d then Some ''Loading...'' else None),
          error_note = (if js_truthy_str (error d) then error d else None),
          connect_label = ''Connected'', address_text = pk,
          tx_section = render_tx_panel d, chart = chart_data\<rparr>"
  by (simp add: render_def)

section \<open>Properties of the rendering\<close>

text \<open>
  C21. While \<open>showBalance\<close> is off the rendered page does not depend on the amounts: any
  other balance, price and token and stake account lists (set where they were set) render
  to the same page. Only the presence of the balance card is visible.
\<close>

theorem masked_view_hides_amounts:
  "\<not> show_balance d \<Longrightarrow>
   render c pk (d\<lparr>sol_balance := map_option f (sol_balance d), sol_price := map_option g (sol_price d),
                  token_accounts := ts, stake_accounts := ss\<rparr>) = render c pk d"
  by (simp add: render_def render_balance_def render_tx_panel_def obfuscate_value_samples
      split: option.splits)

text \<open>
  C22. With \<open>showBalance\<close> on, the card shows the USD value as \<open>toFixed(2)\<close> of balance
  times price, the balance as \<open>toFixed(2)\<close>, and the numbers of token and stake accounts.
\<close>

theorem revealed_view_shows_amounts:
  "show_balance d \<Longrightarrow> sol_balance d = Some b \<Longrightarrow> sol_price d = Some p \<Longrightarrow>
   render True pk d = Dashboard_page v \<Longrightarrow>
     balance_section v =
       Some \<lparr>usd_text = ''$'' @ to_fixed2 (b * p), sol_text = to_fixed2 b @ '' SOL'',
             nft_text = nat_digits (length (token_accounts d)) @ '' NFTs'',
             stake_text = nat_digits (length (stake_accounts d)) @ '' Stakes''\<rparr>"
  by (drule render_connected) (simp add: render_balance_def)

text \<open>
  C23. When the page is neither loading nor showing an error, the transaction panel lists
  every transaction of the state, in order, and the link of each leads to the explorer
  page of its signature, kept verbatim.
\<close>

theorem tx_links_keep_signatures:
  "render True pk d = Dashboard_page v \<Longrightarrow> \<not> loading d \<Longrightarrow> error d = None \<Longrightarrow>
     \<exists>items. tx_section v = Tx_list items \<and> length items = length (transactions d) \<and>
       map (\<lambda>i. drop (length explorer_tx_prefix) (item_href i)) items = map tx_signature (transactions d)"
  by (drule render_connected) (simp add: render_tx_panel_def render_tx_def comp_def)

text \<open>
  C24. An error hides the transaction list but not the balance card: when the error is
  set and nothing loads, the panel shows only the error text while the card of the
  balance and price still set is rendered.
\<close>

theorem error_hides_list_not_balance:
  "render True pk d = Dashboard_page v \<Longrightarrow> \<not> loading d \<Longrightarrow> error d = Some e \<Longrightarrow> e \<noteq> [] \<Longrightarrow>
   sol_balance d \<noteq> None \<Longrightarrow> sol_price d \<noteq> None \<Longrightarrow>
     tx_section v = Tx_error (''Error: '' @ e) \<and> balance_section v \<noteq> None"
  by (drule render_connected) (auto simp: render_tx_panel_def render_balance_def)

text \<open>
  C25. The connect button of the dashboard always reads \<open>Connected\<close>: the page is only
  rendered for a connected wallet, so the \<open>Connect Wallet\<close> branch of line 176 is dead.
\<close>

theorem connect_label_always_connected:
  "render c pk d = Dashboard_page v \<Longrightarrow> connect_label v = ''Connected''"
  by (auto simp: render_def split: if_splits)

end
