(* ===== verification/Page.thy ===== *)
theory Page
  imports View
begin

text \<open>
  The page that composes the dashboard: \<open>HomePage\<close> (src/src/app/page/page.tsx lines 8-20)
  renders the wallet provider \<open>WalletContextProvider\<close> around \<open>Header\<close> and \<open>Dashboard\<close>;
  \<open>Header\<close> (src/src/app/component/header/page.tsx lines 7-26) logs a line and renders the
  logo, the profile picture and the wallet button \<open>WalletMultiButton\<close>. The provider and
  the button are imported with \<open>next/dynamic\<close> and \<open>ssr: false\<close>: they are not rendered
  on the server, and on the client only once their module has loaded, so the page is a
  system of the two module flags, the provider's context, the dashboard of theory
  \<open>Dashboard\<close> and the header's console. The provider module
  (\<open>../component/web3/adapter\<close>) is not part of the sources; it is modelled from the spec's
  section 6 as the pair of values the dashboard reads with \<open>useWallet()\<close>.
\<close>

section \<open>The wallet provider\<close>

record wallet_context =
  wc_connected :: bool
  wc_public_key :: "pubkey option"

text \<open>The provider's values before any wallet has connected.\<close>

definition disconnected_context :: wallet_context where
  "disconnected_context = \<lparr>wc_connected = False, wc_public_key = None\<rparr>"

section \<open>The header\<close>

record image =
  image_class :: string
  image_alt :: string

datatype wallet_button = Wallet_multi_button

record header_view =
  header_logo :: image
  header_profile :: image
  header_wallet :: "wallet_button option"

definition header_log_line :: string where
  "header_log_line = ''Rendering Header component''"

text \<open>
  \<open>WalletMultiButton\<close> (lines 7-10): the dynamic import renders nothing until the module
  \<open>@solana/wallet-adapter-react-ui\<close> has loaded, then the library's button.
\<close>

definition wallet_multi_button :: "bool \<Rightarrow> wallet_button option" where
  "wallet_multi_button loaded = (if loaded then Some Wallet_multi_button else None)"

text \<open>\<open>Header\<close> (lines 12-26): the rendered markup and the lines it writes to the console.\<close>

definition header :: "bool \<Rightarrow> header_view \<times> string list" where
  "header button_loaded =
     (\<lparr>header_logo = \<lparr>image_class = ''logo'', image_alt = ''Logo''\<rparr>,
       header_profile = \<lparr>image_class = ''profile-pic'', image_alt = ''Profile''\<rparr>,
       header_wallet = wallet_multi_button button_loaded\<rparr>,
      [header_log_line])"

section \<open>The page\<close>

datatype page_view = Page_placeholder | Page_content header_view view

record page_sys =
  adapter_loaded :: bool
  button_loaded :: bool
  provider_ctx :: wallet_context
  page_dash :: sys
  page_console :: "string list"

definition init_page :: "string option \<Rightarrow> page_sys" where
  "init_page env =
     \<lparr>adapter_loaded = False, button_loaded = False, provider_ctx = disconnected_context,
      page_dash = init_sys env, page_console = []\<rparr>"

text \<open>
  \<open>HomePage\<close> (page.tsx lines 13-20): until the provider module has loaded, the dynamic
  component renders nothing and neither child is rendered; then the provider renders
  \<open>Header\<close> and \<open>Dashboard\<close>, the latter reading the provider's values.
\<close>

definition home_page :: "page_sys \<Rightarrow> page_view \<times> string list" where
  "home_page p =
     (if adapter_loaded p then
        (let (h, out) = header (button_loaded p);
             c = provider_ctx p
         in (Page_content h (render (wc_connected c) (wc_public_key c) (dash (page_dash p))), out))
      else (Page_placeholder, []))"

text \<open>
  Events of the page: a dynamic module finishes loading, the provider's values change, or
  an event of the mounted dashboard (its settlements and the toggle; its wallet changes
  come from the provider). Loading the provider mounts its children: the page renders
  (the header logs) and the dashboard's effects run for the first time with the
  provider's values.
\<close>

datatype page_event =
    Adapter_module_loaded
  | Button_module_loaded
  | Provider_changed wallet_context
  | Dashboard_event event

definition mount_page :: "page_sys \<Rightarrow> page_sys" where
  "mount_page p =
     (let p' = p\<lparr>adapter_loaded := True\<rparr>;
          c = provider_ctx p
      in p'\<lparr>page_console := page_console p @ snd (home_page p'),
            page_dash := commit_wallet (wc_connected c) (wc_public_key c) (page_dash p)\<rparr>)"

fun is_wallet_event :: "event \<Rightarrow> bool" where
  "is_wallet_event (Wallet_changed _ _) = True"
| "is_wallet_event _ = False"

fun page_step :: "page_sys \<Rightarrow> page_event \<Rightarrow> page_sys option" where
  "page_step p Adapter_module_loaded =
     (if adapter_loaded p then None else Some (mount_page p))"
| "page_step p Button_module_loaded =
     (if button_loaded p then None else Some (p\<lparr>button_loaded := True\<rparr>))"
| "page_step p (Provider_changed c) =
     (if adapter_loaded p then
        Some (p\<lparr>provider_ctx := c, page_dash := commit_wallet (wc_connected c) (wc_public_key c) (page_dash p)\<rparr>)
      else None)"
| "page_step p (Dashboard_event e) =
     (if adapter_loaded p \<and> \<not> is_wallet_event e then
        map_option (\<lambda>s. p\<lparr>page_dash := s\<rparr>) (dashboard_step (page_dash p) e)
      else None)"

fun page_run :: "page_sys \<Rightarrow> page_event list \<Rightarrow> page_sys option" where
  "page_run p [] = Some p"
| "page_run p (e # es) = (case page_step p e of None \<Rightarrow> None | Some p' \<Rightarrow> page_run p' es)"

inductive page_reachable :: "string option \<Rightarrow> page_sys \<Rightarrow> bool" for env where
  start: "page_reachable env (init_page env)"
| step: "page_reachable env p \<Longrightarrow> page_step p e = Some p' \<Longrightarrow> page_reachable env p'"

text \<open>
  The page's invariant: before the provider has loaded nothing has run; afterwards the
  dashboard's effects last ran with the provider's current values, and the header has
  logged once.
\<close>

definition page_inv :: "string option \<Rightarrow> page_sys \<Rightarrow> bool" where
  "page_inv env p \<longleftrightarrow>
     (if adapter_loaded p then
        wallet (page_dash p) = Some (wc_connected (provider_ctx p), wc_public_key (provider_ctx p)) \<and>
        page_console p = [header_log_line]
      else page_dash p = init_sys env \<and> provider_ctx p = disconnected_context \<and> page_console p = [])"

declare header_def [view_defs] wallet_multi_button_def [view_defs] home_page_def [view_defs]


section \<open>Lemmas\<close>

lemma home_page_loaded:
  "adapter_loaded p \<Longrightarrow>
     home_page p = (Page_content (fst (header (button_loaded p)))
                      (render (wc_connected (provider_ctx p)) (wc_public_key (provider_ctx p)) (dash (page_dash p))),
                    [header_log_line])"
  by (simp add: home_page_def header_def Let_def)

lemma mount_page_fields:
  "adapter_loaded (mount_page p) \<and> button_loaded (mount_page p) = button_loaded p \<and>
   provider_ctx (mount_page p) = provider_ctx p \<and>
   page_dash (mount_page p) = commit_wallet (wc_connected (provider_ctx p)) (wc_public_key (provider_ctx p)) (page_dash p) \<and>
   page_console (mount_page p) = page_console p @ [header_log_line]"
  by (simp add: mount_page_def home_page_loaded Let_def)

lemma dashboard_step_keeps_wallet:
  "\<not> is_wallet_event e \<Longrightarrow> dashboard_step s e = Some s' \<Longrightarrow> wallet s' = wallet s"
  by (cases e) (auto elim: dashboard_step_ToggleE dest: settle_portfolio_wallet settle_transactions_wallet
      split: option.splits bool.splits prod.splits)

lemma page_reachable_run:
  "page_reachable env p \<Longrightarrow> page_run p es = Some p' \<Longrightarrow> page_reachable env p'"
proof (induction es arbitrary: p)
  case Nil
  then show ?case by simp
next
  case (Cons e es)
  then obtain q where "page_step p e = Some q" and "page_run q es = Some p'"
    by (auto split: option.splits)
  with Cons show ?case by (blast intro: page_reachable.step)
qed

lemma page_inv_init: "page_inv env (init_page env)"
  by (simp add: page_inv_def init_page_def)

lemma page_step_inv:
  assumes inv: "page_inv env p" and st: "page_step p e = Some p'"
  shows "page_inv env p'"
proof (cases e)
  case Adapter_module_loaded
  with st have "\<not> adapter_loaded p" and "p' = mount_page p" by (simp_all split: if_splits)
  with inv show ?thesis by (simp add: page_inv_def mount_page_fields commit_wallet_wallet)
next
  case Button_module_loaded
  with st inv show ?thesis by (auto simp: page_inv_def split: if_splits)
next
  case (Provider_changed c)
  with st inv show ?thesis by (auto simp: page_inv_def commit_wallet_wallet split: if_splits)
next
  case (Dashboard_event d)
  with st obtain s' where "adapter_loaded p" "\<not> is_wallet_event d"
    "dashboard_step (page_dash p) d = Some s'" "p' = p\<lparr>page_dash := s'\<rparr>"
    by (auto split: if_splits)
  with inv show ?thesis by (simp add: page_inv_def dashboard_step_keeps_wallet)
qed

lemma page_reachable_inv: "page_reachable env p \<Longrightarrow> page_inv env p"
  by (induction rule: page_reachable.induct) (auto intro: page_inv_init page_step_inv)

lemma page_step_dash:
  assumes st: "page_step p e = Some p'"
  shows "page_dash p' = page_dash p \<or> (\<exists>e'. dashboard_step (page_dash p) e' = Some (page_dash p'))"
proof (cases e)
  case Adapter_module_loaded
  with st have "page_dash p' = commit_wallet (wc_connected (provider_ctx p)) (wc_public_key (provider_ctx p)) (page_dash p)"
    by (auto simp: mount_page_fields split: if_splits)
  then show ?thesis by (metis dashboard_step.simps(1))
next
  case (Provider_changed c)
  with st have "page_dash p' = commit_wallet (wc_connected c) (wc_public_key c) (page_dash p)"
    by (auto split: if_splits)
  then show ?thesis by (metis dashboard_step.simps(1))
qed (use st in \<open>auto split: if_splits\<close>)

lemma page_reachable_dash_reachable: "page_reachable env p \<Longrightarrow> reachable env (page_dash p)"
proof (induction rule: page_reachable.induct)
  case start
  then show ?case by (simp add: init_page_def reachable.start)
next
  case (step p e p')
  from page_step_dash [OF step.hyps(2)] step.IH show ?case
    by (auto intro: reachable.step)
qed

lemma page_reachable_error:
  "page_reachable env p \<Longrightarrow> js_truthy_str (error (dash (page_dash p))) \<longleftrightarrow> error (dash (page_dash p)) \<noteq> None"
proof -
  assume "page_reachable env p"
  then have "error (dash (page_dash p)) = None \<or> error (dash (page_dash p)) = Some fetch_error_message"
    using reachable_dash_inv [OF page_reachable_dash_reachable] by (simp add: dash_inv_def)
  then show ?thesis by (auto simp: fetch_error_message_def)
qed

section \<open>Properties of the page\<close>

text \<open>
  C30. Once the provider has loaded, the dashboard of every reachable page is a reachable
  state of the component (so every invariant of theory \<open>Dashboard\<close> holds of it), its
  effects last ran with the provider's current \<open>connected\<close> and \<open>publicKey\<close>, and the
  header has logged its line once.
\<close>

theorem page_dashboard_in_sync:
  "page_reachable env p \<Longrightarrow> adapter_loaded p \<Longrightarrow>
     reachable env (page_dash p) \<and>
     wallet (page_dash p) = Some (wc_connected (provider_ctx p), wc_public_key (provider_ctx p)) \<and>
     page_console p = [header_log_line]"
  using page_reachable_dash_reachable page_reachable_inv by (auto simp: page_inv_def)

text \<open>
  C31. Until the provider's module has loaded (in particular on the server, where
  \<open>ssr: false\<close> renders nothing) the page is empty: no header, no wallet button, no connect
  prompt, nothing logged, and no effect of the dashboard has run.
\<close>

theorem page_before_provider_empty:
  "page_reachable env p \<Longrightarrow> \<not> adapter_loaded p \<Longrightarrow>
     home_page p = (Page_placeholder, []) \<and> page_dash p = init_sys env \<and> page_console p = []"
  using page_reachable_inv by (auto simp: page_inv_def home_page_def)

text \<open>
  C32. Once both modules have loaded, every reachable page shows the header's wallet button,
  whatever the state of the connection and of the fetches; when a wallet is connected the
  dashboard shows its toggle and exactly the error the state holds, and otherwise the
  connect prompt (spec section 2: a failure keeps the toggle and the connect button).
\<close>

theorem page_keeps_affordances:
  "page_reachable env p \<Longrightarrow> adapter_loaded p \<Longrightarrow> button_loaded p \<Longrightarrow>
     \<exists>h v. fst (home_page p) = Page_content h v \<and> header_wallet h = Some Wallet_multi_button \<and>
       (if wc_connected (provider_ctx p)
        then \<exists>d. v = Dashboard_page d \<and> error_note d = error (dash (page_dash p)) \<and>
                 toggle_label d \<in> {''View Balance'', ''Hide Balance''}
        else v = Connect_prompt)"
  using page_reachable_error [of env p]
  by (auto simp: home_page_loaded header_def wallet_multi_button_def render_def)

end
