(* ===== verification/Status_Machine.thy ===== *)
theory Status_Machine
  imports Dashboard
begin

text \<open>
  The controller's state machine as the spec states it (section 4.4): the states
  Disconnected, Loading, Ready and Error and the transitions between them. The function
  \<open>dash_status\<close> reads the status off a state of the component model; the refinement
  theorem says which abstract transitions the component's steps make.
\<close>

section \<open>The abstract machine of spec section 4.4\<close>

datatype status = Disconnected | Loading | Ready | Error

inductive spec_transition :: "status \<Rightarrow> status \<Rightarrow> bool" where
  connect: "spec_transition Disconnected Loading"
| fetched: "spec_transition Loading Ready"
| failed: "spec_transition Loading Error"
| ready_disconnect: "spec_transition Ready Disconnected"
| error_disconnect: "spec_transition Error Disconnected"
| refetch: "spec_transition st Loading"

inductive_simps spec_transition_simps: "spec_transition st st'"

text \<open>
  The status of a component state: disconnected unless the effects last ran for a
  connected wallet with a key; then loading while \<open>loading\<close> is set, in error while an
  error is set, ready otherwise.
\<close>

definition dash_status :: "sys \<Rightarrow> status" where
  "dash_status s =
     (case wallet s of
        Some (True, Some _) \<Rightarrow>
          (if loading (dash s) then Loading else if error (dash s) \<noteq> None then Error else Ready)
      | _ \<Rightarrow> Disconnected)"

text \<open>The two transitions the component makes that the spec's machine does not have.\<close>

definition extra_transition :: "status \<Rightarrow> status \<Rightarrow> bool" where
  "extra_transition st st' \<longleftrightarrow> (st, st') = (Ready, Error) \<or> (st, st') = (Loading, Disconnected)"

section \<open>Lemmas\<close>

lemma dash_status_dash_only:
  assumes "wallet s' = wallet s" "loading (dash s') = loading (dash s)" "error (dash s') = error (dash s)"
  shows "dash_status s' = dash_status s"
  unfolding dash_status_def by (simp only: assms)

lemma dash_status_failure:
  "wallet s' = wallet s \<Longrightarrow> \<not> loading (dash s') \<Longrightarrow> error (dash s') = Some m \<Longrightarrow>
   dash_status s' = Error \<or> dash_status s' = Disconnected"
  by (auto simp: dash_status_def split: option.splits prod.splits bool.splits)

lemma commit_wallet_status:
  "dash_status (commit_wallet c pk s) = dash_status s \<or>
   dash_status (commit_wallet c pk s) = Loading \<or>
   dash_status (commit_wallet c pk s) = Disconnected"
  by (auto simp: dash_status_def commit_wallet_def wallet_effect_def fetch_all_data_def reset_state_def
      split: option.splits prod.splits bool.splits if_splits)

lemma settle_portfolio_status:
  "settle_portfolio r i s = Some s' \<Longrightarrow>
   dash_status s' = dash_status s \<or> dash_status s' = Error \<or> dash_status s' = Disconnected"
  by (auto elim!: settle_portfolioE simp: dash_status_def split: option.splits prod.splits bool.splits)

lemma settle_transactions_status:
  "settle_transactions r i s = Some s' \<Longrightarrow>
   dash_status s' = dash_status s \<or> dash_status s' = Ready \<or> dash_status s' = Error \<or>
   dash_status s' = Disconnected"
  by (auto elim!: settle_transactionsE simp: dash_status_def split: option.splits prod.splits bool.splits)


lemma settle_portfolio_fields:
  "settle_portfolio r i s = Some s' \<Longrightarrow>
   (loading (dash s') = loading (dash s) \<and> error (dash s') = error (dash s)) \<or>
   (\<not> loading (dash s') \<and> error (dash s') = Some fetch_error_message)"
  by (auto elim!: settle_portfolioE)

lemma settle_transactions_fields:
  "settle_transactions r i s = Some s' \<Longrightarrow>
   \<not> loading (dash s') \<and> (error (dash s') = error (dash s) \<or> error (dash s') = Some fetch_error_message)"
  by (auto elim!: settle_transactionsE)

lemma dash_status_settled:
  assumes "wallet s' = wallet s" and "\<not> loading (dash s')"
    and "error (dash s') = error (dash s) \<or> error (dash s') = Some m"
  shows "dash_status s' = dash_status s \<or> (dash_status s = Loading \<and> dash_status s' \<in> {Ready, Error}) \<or>
         (dash_status s = Ready \<and> dash_status s' = Error)"
  using assms by (auto simp: dash_status_def split: option.splits prod.splits bool.splits)


lemma settled_status_allowed:
  "dash_status s' = dash_status s \<or> (dash_status s = Loading \<and> dash_status s' \<in> {Ready, Error}) \<or>
   (dash_status s = Ready \<and> dash_status s' = Error) \<Longrightarrow>
   dash_status s' = dash_status s \<or> spec_transition (dash_status s) (dash_status s') \<or>
   extra_transition (dash_status s) (dash_status s')"
  by (auto simp: spec_transition_simps extra_transition_def)


lemma commit_wallet_allowed:
  "dash_status (commit_wallet c pk s) = dash_status s \<or> spec_transition (dash_status s) (dash_status (commit_wallet c pk s)) \<or>
         extra_transition (dash_status s) (dash_status (commit_wallet c pk s))"
  using commit_wallet_status [of c pk s]
  by (cases "dash_status s") (auto simp: spec_transition_simps extra_transition_def)

section \<open>Refinement\<close>

text \<open>
  C26. Every step of the component either keeps the abstract status or makes a transition
  of the spec's machine, except for two transitions the spec does not have: from Ready to
  Error (the second invocation of a connection fails after the first has finished) and
  from Loading to Disconnected (the wallet disconnects while a cycle loads).
\<close>

theorem dashboard_step_refines_spec_machine:
  assumes st: "dashboard_step s e = Some s'"
  shows "dash_status s' = dash_status s \<or> spec_transition (dash_status s) (dash_status s') \<or>
         extra_transition (dash_status s) (dash_status s')"
proof (cases e)
  case (Wallet_changed c pk)
  with st have "s' = commit_wallet c pk s" by simp
  then show ?thesis using commit_wallet_allowed by simp
next
  case (Portfolio_settled i r)
  with st have sp: "settle_portfolio r i s = Some s'" by simp
  then have w: "wallet s' = wallet s" by (rule settle_portfolio_wallet)
  from settle_portfolio_fields [OF sp] show ?thesis
  proof
    assume "loading (dash s') = loading (dash s) \<and> error (dash s') = error (dash s)"
    with w have "dash_status s' = dash_status s" by (intro dash_status_dash_only) simp_all
    then show ?thesis by simp
  next
    assume f: "\<not> loading (dash s') \<and> error (dash s') = Some fetch_error_message"
    then have "error (dash s') = error (dash s) \<or> error (dash s') = Some fetch_error_message" by simp
    with w f have "dash_status s' = dash_status s \<or> (dash_status s = Loading \<and> dash_status s' \<in> {Ready, Error}) \<or>
         (dash_status s = Ready \<and> dash_status s' = Error)"
      by (intro dash_status_settled [of s' s "fetch_error_message"]) simp_all
    then show ?thesis by (rule settled_status_allowed)
  qed
next
  case (Transactions_settled i r)
  with st have sp: "settle_transactions r i s = Some s'" by simp
  then have w: "wallet s' = wallet s" by (rule settle_transactions_wallet)
  from settle_transactions_fields [OF sp] have
    "\<not> loading (dash s')" "error (dash s') = error (dash s) \<or> error (dash s') = Some fetch_error_message"
    by simp_all
  with w have "dash_status s' = dash_status s \<or> (dash_status s = Loading \<and> dash_status s' \<in> {Ready, Error}) \<or>
         (dash_status s = Ready \<and> dash_status s' = Error)"
    by (intro dash_status_settled [of s' s "fetch_error_message"]) simp_all
  then show ?thesis by (rule settled_status_allowed)
next
  case Toggle_clicked
  with st obtain k where "s' = s\<lparr>dash := toggle_balance (dash s)\<rparr>"
    by (auto elim: dashboard_step_ToggleE split: option.splits bool.splits prod.splits)
  then have "dash_status s' = dash_status s"
    by (intro dash_status_dash_only) (simp_all add: toggle_balance_def)
  then show ?thesis by simp
qed

end
