(* ===== verification/Progress.thy ===== *)
theory Progress
  imports Dashboard
begin

text \<open>
  Termination and progress of the invocations of \<open>fetchAllData\<close> in flight. Each
  invocation resumes at most twice (after \<open>Promise.all\<close> and after the transaction loop),
  so the work left, two per invocation waiting on its batch and one per invocation waiting
  on its transactions, strictly decreases at every resumption; only a wallet change adds
  work. The function \<open>drain\<close> is the event loop resuming the first invocation in flight
  until none is left, with every response given by one network; its termination is proved
  by that measure, and its run brings every reachable state to rest.
\<close>

section \<open>The work left\<close>

fun cycle_work :: "cycle \<Rightarrow> nat" where
  "cycle_work c = (case cycle_pc c of Awaiting_portfolio \<Rightarrow> 2 | Awaiting_transactions \<Rightarrow> 1)"

definition pending_work :: "sys \<Rightarrow> nat" where
  "pending_work s = sum_list (map cycle_work (pending s))"

section \<open>Draining the invocations in flight\<close>

text \<open>The resumption of the first invocation in flight, at the \<open>await\<close> it waits on.\<close>

definition resume_first :: "remote \<Rightarrow> sys \<Rightarrow> event" where
  "resume_first r s =
     (case cycle_pc (hd (pending s)) of
        Awaiting_portfolio \<Rightarrow> Portfolio_settled 0 r
      | Awaiting_transactions \<Rightarrow> Transactions_settled 0 r)"

lemma settle_portfolio_work:
  "settle_portfolio r i s = Some s' \<Longrightarrow> pending_work s' < pending_work s"
proof -
  assume st: "settle_portfolio r i s = Some s'"
  then have i: "i < length (pending s)" and pc: "cycle_pc (pending s ! i) = Awaiting_portfolio"
    by (auto dest: settle_portfolio_Some)
  let ?c = "pending s ! i"
  have "pending s' = (pending s)[i := ?c\<lparr>cycle_pc := Awaiting_transactions\<rparr>] \<or>
        pending s' = remove_at i (pending s)"
    using st by (auto elim!: settle_portfolioE)
  then show ?thesis
    using sum_list_update [OF i, of cycle_work "?c\<lparr>cycle_pc := Awaiting_transactions\<rparr>"] sum_list_remove_at [OF i, of cycle_work] pc
    by (auto simp: pending_work_def)
qed

lemma settle_transactions_work:
  "settle_transactions r i s = Some s' \<Longrightarrow> pending_work s' < pending_work s"
proof -
  assume st: "settle_transactions r i s = Some s'"
  then have i: "i < length (pending s)" and pc: "cycle_pc (pending s ! i) = Awaiting_transactions"
    by (auto dest: settle_transactions_Some)
  have "pending s' = remove_at i (pending s)"
    using st by (auto elim!: settle_transactionsE)
  then show ?thesis using sum_list_remove_at [OF i, of cycle_work] pc by (simp add: pending_work_def)
qed

lemma resume_first_step:
  assumes ne: "pending s \<noteq> []"
  shows "\<exists>s'. dashboard_step s (resume_first r s) = Some s' \<and> pending_work s' < pending_work s"
proof (cases "cycle_pc (hd (pending s))")
  case Awaiting_portfolio
  with ne obtain s' where st: "settle_portfolio r 0 s = Some s'"
    using settle_portfolio_defined [of r 0 s] by (auto simp: hd_conv_nth)
  with Awaiting_portfolio show ?thesis by (auto simp: resume_first_def intro: settle_portfolio_work)
next
  case Awaiting_transactions
  with ne obtain s' where st: "settle_transactions r 0 s = Some s'"
    using settle_transactions_defined [of r 0 s] by (auto simp: hd_conv_nth)
  with Awaiting_transactions show ?thesis by (auto simp: resume_first_def intro: settle_transactions_work)
qed

function drain :: "remote \<Rightarrow> sys \<Rightarrow> event list" where
  "drain r s =
     (if pending s = [] then []
      else case dashboard_step s (resume_first r s) of
             None \<Rightarrow> []
           | Some s' \<Rightarrow> resume_first r s # drain r s')"
  by pat_completeness auto

termination
proof (relation "measure (\<lambda>(r, s). pending_work s)")
  fix r s s'
  assume "\<not> pending s = []" and "dashboard_step s (resume_first r s) = Some s'"
  then show "((r, s'), r, s) \<in> measure (\<lambda>(r, s). pending_work s)"
    using resume_first_step [of s r] by auto
qed simp

declare drain.simps [simp del]

section \<open>Lemmas\<close>

lemma pending_work_bound: "pending_work s \<le> 2 * length (pending s)"
proof -
  have "sum_list (map cycle_work cs) \<le> 2 * length cs" for cs
    by (induction cs) (auto split: cycle_pc.splits)
  then show ?thesis by (simp add: pending_work_def)
qed

lemma commit_wallet_pending: "\<exists>cs. pending (commit_wallet c pk s) = pending s @ cs"
  by (auto simp: commit_wallet_def wallet_effect_def fetch_all_data_def split: option.splits)

lemma drain_run:
  "\<exists>s'. dashboard_run s (drain r s) = Some s' \<and> pending s' = [] \<and> length (drain r s) \<le> pending_work s"
proof (induction r s rule: drain.induct)
  case (1 r s)
  show ?case
  proof (cases "pending s = []")
    case True
    then show ?thesis by (simp add: drain.simps)
  next
    case False
    with resume_first_step obtain s1 where
      st: "dashboard_step s (resume_first r s) = Some s1" and w: "pending_work s1 < pending_work s"
      by blast
    with False have d: "drain r s = resume_first r s # drain r s1" by (simp add: drain.simps)
    from "1.IH" [OF False st] obtain s' where
      "dashboard_run s1 (drain r s1) = Some s'" "pending s' = []" "length (drain r s1) \<le> pending_work s1"
      by blast
    with st w d show ?thesis by auto
  qed
qed

section \<open>Properties\<close>

text \<open>
  C33. The work left is a termination measure of the invocations in flight: every
  resumption of an invocation strictly decreases it, a click leaves it unchanged, and only
  a change of the wallet can add to it.
\<close>

theorem dashboard_step_work:
  "dashboard_step s e = Some s' \<Longrightarrow>
     (case e of
        Wallet_changed c pk \<Rightarrow> pending_work s \<le> pending_work s'
      | Toggle_clicked \<Rightarrow> pending_work s' = pending_work s
      | _ \<Rightarrow> pending_work s' < pending_work s)"
proof (cases e)
  case (Wallet_changed c pk)
  moreover assume "dashboard_step s e = Some s'"
  moreover obtain cs where "pending (commit_wallet c pk s) = pending s @ cs"
    using commit_wallet_pending by blast
  ultimately show ?thesis by (auto simp: pending_work_def)
next
  case Toggle_clicked
  moreover assume "dashboard_step s e = Some s'"
  ultimately show ?thesis
    by (auto elim: dashboard_step_ToggleE simp: pending_work_def split: option.splits bool.splits prod.splits)
qed (auto intro: settle_portfolio_work settle_transactions_work)

text \<open>
  C34. From every reachable state, whatever the network answers, resuming the invocations
  in flight one after the other brings the component to rest in at most two events per
  invocation: no invocation is left in flight and \<open>loading\<close> is false.
\<close>

theorem drain_reaches_rest:
  "reachable env s \<Longrightarrow>
     \<exists>s'. dashboard_run s (drain r s) = Some s' \<and> pending s' = [] \<and> \<not> loading (dash s') \<and>
       length (drain r s) \<le> 2 * length (pending s)"
proof -
  assume reach: "reachable env s"
  obtain s' where run: "dashboard_run s (drain r s) = Some s'" and idle: "pending s' = []"
    and len: "length (drain r s) \<le> pending_work s"
    using drain_run by blast
  from reachable_dash_inv [OF reachable_run [OF reach run]] idle have "\<not> loading (dash s')"
    by (simp add: dash_inv_def)
  with run idle len pending_work_bound [of s] show ?thesis by auto
qed

end
