(* ===== verification/Spec2Isabelle.thy ===== *)
theory Spec2Isabelle
  imports Page Status_Machine Effects
begin

text \<open>
  \<^bold>\<open>A verification development of the DeFi portfolio dashboard.\<close>

  \<^bold>\<open>The program.\<close> The repository is a Next.js page (src/src/app/page/page.tsx) that
  puts a wallet provider around a \<open>Header\<close> (component/header/page.tsx: static markup and
  the wallet button) and the \<open>Dashboard\<close> (component/dashboard/page.tsx), which holds all
  the logic. The dashboard keeps its state in eight \<open>useState\<close> hooks. Two identical
  \<open>useEffect\<close> hooks on \<open>[connected, publicKey]\<close> either reset the state or call
  \<open>fetchAllData\<close>. That function fetches balance, price, token and stake accounts in a
  \<open>Promise.all\<close> and then the transaction history. Each RPC call goes through
  \<open>tryRPCEndpoints\<close>, which tries the endpoints of \<open>RPC_ENDPOINTS\<close> in order. The page
  renders a balance card masked by \<open>obfuscateValue\<close> unless the toggle reveals it, the
  transaction list and a static chart. The fetchers themselves (component/web3/portfolio,
  component/web3/fetchTransaction) and the wallet adapter are not among the sources.

  \<^bold>\<open>The theories.\<close>
  \<^item> \<open>Prelude\<close>: type names (public key, endpoint slot, JS number as \<open>rat\<close>, thrown
    error as text), JavaScript truthiness of optional strings, the proof collections
    \<open>dash_defs\<close>, \<open>view_defs\<close> and \<open>settle_elims\<close>, and list lemmas (\<open>remove_at\<close>, \<open>find\<close>).
  \<^item> \<open>Endpoints\<close>: \<open>RPC_ENDPOINTS\<close> as \<open>rpc_endpoints\<close>, \<open>tryRPCEndpoints\<close> as
    \<open>try_rpc_endpoints\<close>. The loop is structural recursion over the slots and returns
    the endpoints it tried, its \<open>console.error\<close> lines and its result or thrown error. Its
    specification \<open>rpc_spec\<close> is the first truthy endpoint that succeeds (spec 4.1).
    C1-C4 prove refinement, the stop at the first success, the exact log, and the
    all-fail error.
  \<^item> \<open>Fetchers\<close>: the remote services as the record \<open>remote\<close>, with one response
    function per call, modelled from the spec because their code is not in src/. Also the
    account shape and the \<open>Promise.all\<close> batch (\<open>promise_all4\<close>, \<open>fetch_portfolio\<close>),
    and the transaction simplification of spec 4.3 (\<open>simplify_transaction\<close>). C36:
    the batch rejects exactly when one loop finds no answering endpoint or the price
    call fails.
  \<^item> \<open>Dashboard\<close>: the React state \<open>dash_state\<close>, \<open>toggleBalance\<close>, \<open>resetState\<close>,
    and \<open>fetchAllData\<close> cut at its two \<open>await\<close>s. These are \<open>fetch_all_data\<close> up to the
    first one, \<open>settle_portfolio\<close> after the batch and \<open>settle_transactions\<close> after the
    history loop. The effects are \<open>wallet_effect\<close> and \<open>commit_wallet\<close>, which runs both
    bodies. The component is a system \<open>sys\<close> of that state, the effect dependencies, the
    list of invocations in flight and the console. A step is one atomic piece of
    JavaScript: a wallet change, the resumption of one invocation with the network's
    response, or a click. \<open>dashboard_step\<close> is a function into \<open>option\<close> (\<open>None\<close>: the
    event cannot happen), \<open>dashboard_run\<close> runs an event list, and \<open>reachable\<close> is the
    inductive set of states of all interleavings. C5-C9 are the behaviour of each
    handler. The two resumption handlers have elimination rules
    (\<open>settle_portfolioE\<close>, \<open>settle_transactionsE\<close>, collected in \<open>settle_elims\<close>)
    with a case for success and one for failure, by which the proofs about them do their
    case analysis. C10-C12 are invariants proved by rule induction over \<open>reachable\<close> from
    one-step preservation lemmas; C29 is the well-formedness of every reachable state
    (\<open>sys_wf\<close>: the endpoint list of the environment, a console whose endpoint lines
    name only truthy endpoints, nothing run before the first commit).
  \<^item> \<open>Formatting\<close>: \<open>obfuscateValue\<close>, \<open>toFixed(2)\<close> by the ECMAScript steps on exact
    rationals, and the decimal text of counts. C19 bounds the printed value within half
    a cent, through the reader \<open>fixed_value\<close>. C20 relates the padding algorithm to a
    div/mod digit form. C37: amounts in whole cents print and read back exactly.
  \<^item> \<open>View\<close>: \<open>render\<close>, the text content of the page as a function of the wallet
    values and the React state. C21-C25 cover masking (the masked page does not depend on
    the amounts), the revealed figures, the explorer links, the error panel, and the dead
    \<open>Connect Wallet\<close> branch.
  \<^item> \<open>Status_Machine\<close>: the machine of spec 4.4 as an inductive relation, the
    abstraction \<open>dash_status\<close>, and the refinement theorem C26.
  \<^item> \<open>Progress\<close>: the work left (\<open>pending_work\<close>: two per invocation waiting on its
    batch, one per invocation waiting on its history) and \<open>drain\<close>, the event loop
    resuming the first invocation in flight until none is left, defined with
    \<open>function\<close> and proved terminating by that measure. C33: every resumption decreases
    the measure and only a wallet change adds to it. C34: from every reachable state the
    drain brings the component to rest with \<open>loading\<close> false.
  \<^item> \<open>Effects\<close>: the duplicated \<open>useEffect\<close> compared with a single one
    (\<open>commit_wallet_once\<close>, a reference definition). C38: from a state with nothing in
    flight, once the network has answered, both end in the same React state; the duplicate
    takes twice the resumptions and repeats every new log line.
  \<^item> \<open>Page\<close>: \<open>HomePage\<close> (page/page.tsx) and \<open>Header\<close> (component/header/page.tsx).
    The provider and the wallet button are \<open>next/dynamic\<close> imports with
    \<open>ssr: false\<close>, so the page is a system \<open>page_sys\<close> of the two module flags, the
    provider's values (\<open>wallet_context\<close>, from the spec), the dashboard's \<open>sys\<close> and
    the header's console. \<open>page_step\<close> handles a module load (loading the provider
    mounts \<open>Header\<close> and \<open>Dashboard\<close>: the header logs and the dashboard's effects run
    with the provider's values), a change of the provider's values (a wallet change of
    the dashboard) and the dashboard's own events. C30-C32: every reachable page's
    dashboard is a reachable dashboard state in step with the provider; before the
    provider loads the page is empty; afterwards the wallet button is always shown.
  \<^item> This theory: scenarios (concrete networks and event lists), the properties that
    span components (C13-C18, C27, C35) and the witnesses of the theorems with
    hypotheses.

  \<^bold>\<open>What the proofs show.\<close> The fallback loop is correct against its specification.
  The handlers do what the code says on every branch. Balance and price are always set
  together, the error text is always the fixed message, and nothing loads when no
  invocation is in flight. Every log line names a real endpoint. Every invocation ends,
  and the component comes to rest once the network has answered. The page keeps the wallet
  button whatever happens, and every fetched transaction reaches the page with its
  signature. Masking hides the amounts. The printed numbers are accurate.
  The proofs also show where the code departs from the spec:
  \<^item> every connection starts two fetch cycles (C7), which double the requests and the
    log but, when the network answers the same, not what is shown (C38);
  \<^item> failures keep the earlier data on screen (C8, C9, C24);
  \<^item> a stale invocation overwrites a newer account's balance (C16);
  \<^item> \<open>loading\<close> is cleared while a fetch is still running (C17);
  \<^item> a disconnect does not stop data from coming back (C18);
  \<^item> the status machine has two transitions the spec lacks (C26, C27);
  \<^item> nothing, not even the connect button, is rendered before the provider's module has
    loaded on the client (C31).

  \<^bold>\<open>Bounds and fuel.\<close> Nothing needs fuel. The fallback loop and the digit recursion
  terminate structurally or by \<open>div\<close>; \<open>drain\<close> terminates by \<open>pending_work\<close>, which
  is at most twice the number of invocations in flight, the bound of C34. Runs are finite
  event lists, and the reachable states are inductive sets, so every interleaving of any
  length is covered.

  \<^bold>\<open>Not modelled.\<close>
  \<^item> The code of the fetchers and of the wallet adapter (outside src/). The fetchers are
    arbitrary responses of \<open>remote\<close>, so each theorem holds for every behaviour of the
    network.
  \<^item> Rounding of the product to a double before \<open>toFixed\<close>, and \<open>toFixed\<close> of numbers
    of 1e21 or more.
  \<^item> The individual attempts of the loops as separate steps. \<open>Promise.all\<close> rejects
    at the first failure in time: the catch logs and sets the error while the other loops
    may still be trying endpoints and logging. The model takes the batch as one step at the
    invocation's resumption, writing the loops' lines one loop after the other in array
    order and reporting the first failure in array order. The React state is the same
    either way (only the catch and the four setters change it); only the order of the
    console lines and which reason is logged depend on this choice, and no property of
    this development is about them.
  \<^item> Markup, styling, images' sources, icons other than the toggle's, and the chart widget.
  \<^item> The library's wallet button beyond its presence, React's development-mode double
    rendering, and re-renders that change nothing visible (the header logs once per mount
    in the model).
  \<^item> The import lines of the three files, which the model takes as given: the fetchers
    and the wallet adapter they name are not among the sources, so the components
    \<open>Portfolio data fetchers\<close>, \<open>Transaction history fetcher\<close> and the wallet provider
    stay partly modelled (their code in src/ is modelled, the rest from the spec).
  \<^item> The cycle-sequence guard that spec section 5 recommends: it is a proposed design,
    not code of the repository. The stale writes it would prevent are proved to occur
    (C16, C18).

  \<^bold>\<open>Coverage.\<close> Every statement of the three source files other than their imports is
  modelled. The refinement left open is the one above: the attempts of the concurrent
  loops as separate steps, which would change the order of console lines but no React
  state, and the browser's merging of the header's \<open>console.log\<close> with the dashboard's
  \<open>console.error\<close> lines.
\<close>

section \<open>Scenarios\<close>

text \<open>
  Responses of a network used by the scenarios: every RPC endpoint answers, the balance
  of account \<open>k1\<close> is 1 SOL and of any other account 2 SOL, the price is 150 USD, and
  there are no token or stake accounts and no transactions. The variants make the price
  service or the transaction history fail.
\<close>

definition demo_remote :: remote where
  "demo_remote =
     \<lparr>get_sol_balance = (\<lambda>k u. if k = ''k1'' then Inr 1 else Inr 2),
      get_sol_price_in_usd = Inr 150,
      get_token_accounts = (\<lambda>k u. Inr []),
      get_stake_accounts = (\<lambda>k u. Inr []),
      get_transactions = (\<lambda>k u. Inr [])\<rparr>"

definition price_down_remote :: remote where
  "price_down_remote = demo_remote\<lparr>get_sol_price_in_usd := Inl ''price service unavailable''\<rparr>"

definition history_down_remote :: remote where
  "history_down_remote = demo_remote\<lparr>get_transactions := (\<lambda>k u. Inl ''timeout'')\<rparr>"

text \<open>The dashboard right after wallet \<open>k1\<close> connected, with no environment endpoint.\<close>

definition connected_state :: sys where
  "connected_state = commit_wallet True (Some ''k1'') (init_sys None)"

text \<open>Then the first invocation's portfolio batch has succeeded.\<close>

definition portfolio_shown_state :: "remote \<Rightarrow> sys" where
  "portfolio_shown_state r = the (settle_portfolio r 0 connected_state)"

text \<open>Connect, then both invocations run to completion, one after the other.\<close>

definition complete_events :: "event list" where
  "complete_events =
     [Wallet_changed True (Some ''k1''),
      Portfolio_settled 0 demo_remote, Transactions_settled 0 demo_remote,
      Portfolio_settled 0 demo_remote, Transactions_settled 0 demo_remote]"

text \<open>
  Connect \<open>k1\<close>, switch to \<open>k2\<close>, let both invocations for \<open>k2\<close> finish, then let an
  invocation for \<open>k1\<close> resume.
\<close>

definition race_events :: "event list" where
  "race_events =
     [Wallet_changed True (Some ''k1''), Wallet_changed True (Some ''k2''),
      Portfolio_settled 2 demo_remote, Transactions_settled 2 demo_remote,
      Portfolio_settled 2 demo_remote, Transactions_settled 2 demo_remote,
      Portfolio_settled 0 demo_remote]"

text \<open>A dashboard state showing one transaction, and one showing a balance with an error.\<close>

definition sample_transaction :: raw_transaction where
  "sample_transaction =
     \<lparr>raw_signature = ''4sGjMW1sUnHzSxGspuhpqLDx6wiyjNtZ'', raw_instruction = Some ''transfer'',
      raw_failed = False, raw_date = ''2024-05-01''\<rparr>"

definition history_state :: dash_state where
  "history_state = init_dash\<lparr>transactions := [simplify_transaction sample_transaction]\<rparr>"

definition failed_state :: dash_state where
  "failed_state = init_dash\<lparr>sol_balance := Some 1, sol_price := Some 150, error := Some fetch_error_message\<rparr>"

text \<open>
  A network whose Helius endpoint rejects the balance query, so that the fallback loop
  logs it and the public endpoint answers.
\<close>

definition flaky_remote :: remote where
  "flaky_remote =
     demo_remote\<lparr>get_sol_balance := (\<lambda>k u. if u = helius_mainnet_url then Inl ''429'' else Inr 1)\<rparr>"

definition flaky_events :: "event list" where
  "flaky_events = [Wallet_changed True (Some ''k1''), Portfolio_settled 0 flaky_remote]"

text \<open>
  The page: the button's module loads first, then the provider's; wallet \<open>k1\<close>
  connects, and the first invocation's batch fails on the price service.
\<close>

definition k1_context :: wallet_context where
  "k1_context = \<lparr>wc_connected = True, wc_public_key = Some ''k1''\<rparr>"

definition page_events :: "page_event list" where
  "page_events =
     [Button_module_loaded, Adapter_module_loaded, Provider_changed k1_context,
      Dashboard_event (Portfolio_settled 0 price_down_remote)]"

text \<open>A network whose history holds a transfer and an entry of an unknown instruction type.\<close>

definition unknown_transaction :: raw_transaction where
  "unknown_transaction =
     \<lparr>raw_signature = ''5jXbH2pQ9vRk'', raw_instruction = None, raw_failed = True, raw_date = ''2024-05-02''\<rparr>"

definition history_remote :: remote where
  "history_remote = demo_remote\<lparr>get_transactions := (\<lambda>k u. Inr [sample_transaction, unknown_transaction])\<rparr>"

text \<open>The dashboard page of a rendered view.\<close>

definition page_of :: "view \<Rightarrow> dashboard_view" where
  "page_of v = (case v of Dashboard_page p \<Rightarrow> p | Connect_prompt \<Rightarrow> undefined)"

lemmas run_defs = init_sys_def init_dash_def commit_wallet_def wallet_effect_def fetch_all_data_def
  settle_portfolio_def settle_transactions_def fetch_portfolio_def promise_all4_def
  fetch_transactions_def rpc_endpoints_def remove_at_def Let_def simplify_transaction_def

lemmas remote_defs = demo_remote_def price_down_remote_def history_down_remote_def flaky_remote_def
  history_remote_def

lemmas page_run_defs = init_page_def mount_page_def home_page_def header_def disconnected_context_def
  k1_context_def page_events_def

section \<open>Properties across components\<close>

text \<open>
  C13. When an invocation's portfolio batch succeeds, the dashboard shows for its account
  the balance, token and stake accounts of the first endpoint that answered each query and
  the price, and the invocation moves on to the transaction history; \<open>loading\<close> and the
  error are untouched.
\<close>

theorem portfolio_success_shows_first_endpoint_values:
  assumes "settle_portfolio r i s = Some s'"
    and "rpc_spec (get_sol_balance r (cycle_key (pending s ! i))) (endpoints s) = Inr b"
    and "get_sol_price_in_usd r = Inr p"
    and "rpc_spec (get_token_accounts r (cycle_key (pending s ! i))) (endpoints s) = Inr ts"
    and "rpc_spec (get_stake_accounts r (cycle_key (pending s ! i))) (endpoints s) = Inr ss"
  shows "dash s' = (dash s)\<lparr>sol_balance := Some b, sol_price := Some p,
                            token_accounts := ts, stake_accounts := ss\<rparr> \<and>
         pending s' = (pending s)[i := (pending s ! i)\<lparr>cycle_pc := Awaiting_transactions\<rparr>]"
  using assms
  by (auto simp: settle_portfolio_def Let_def fetch_portfolio_outcome promise_all4_def
      split: if_splits)

text \<open>
  C14. When an invocation's transaction loop succeeds, the dashboard shows the history of
  the first endpoint that answered, each entry simplified, clears \<open>loading\<close> and the
  invocation ends; an error set by another invocation stays.
\<close>

theorem transactions_success_shows_history:
  assumes "settle_transactions r i s = Some s'"
    and "rpc_spec (get_transactions r (cycle_key (pending s ! i))) (endpoints s) = Inr raw"
  shows "dash s' = (dash s)\<lparr>transactions := map simplify_transaction raw, loading := False\<rparr> \<and>
         pending s' = remove_at i (pending s)"
  using assms
  by (auto simp: settle_transactions_def Let_def fetch_transactions_outcome split: if_splits)

text \<open>
  C15. Spec section 8: whenever a wallet connects while nothing is in flight and the
  network answers every query, with no token and no stake accounts, the invocations run
  to the ready state with empty account lists, the balance, price and history of the
  first answering endpoints, and no error.
\<close>

theorem zero_accounts_ready:
  assumes idle: "pending s = []" and new: "wallet s \<noteq> Some (True, Some k)"
    and b: "rpc_spec (get_sol_balance r k) (endpoints s) = Inr b"
    and p: "get_sol_price_in_usd r = Inr p"
    and t: "rpc_spec (get_token_accounts r k) (endpoints s) = Inr []"
    and st: "rpc_spec (get_stake_accounts r k) (endpoints s) = Inr []"
    and h: "rpc_spec (get_transactions r k) (endpoints s) = Inr raw"
  shows "\<exists>s'. dashboard_run (commit_wallet True (Some k) s) (drain r (commit_wallet True (Some k) s)) = Some s' \<and>
     dash_status s' = Ready \<and> token_accounts (dash s') = [] \<and> stake_accounts (dash s') = [] \<and>
     sol_balance (dash s') = Some b \<and> sol_price (dash s') = Some p \<and>
     transactions (dash s') = map simplify_transaction raw \<and> pending s' = []"
proof -
  have fp: "snd (fetch_portfolio r k (endpoints s)) =
              Inr \<lparr>pf_balance = b, pf_price = p, pf_tokens = [], pf_stakes = []\<rparr>"
    using b p t st by (simp add: fetch_portfolio_outcome promise_all4_def)
  have ft: "rpc_outcome (try_rpc_endpoints (fetch_transactions r k) (endpoints s)) =
              Inr (map simplify_transaction raw)"
    using h by (simp add: fetch_transactions_outcome)
  show ?thesis using idle new fp ft by (simp add: cycle_run_defs dash_status_def)
qed

text \<open>
  C16. No cycle guard (spec section 5 names this race): for any two accounts and any
  network on which both batches succeed, connecting the first account and then the second
  lets both invocations of the second finish and an invocation of the first resume after
  them; the dashboard then shows, with the second account connected, the balance and token
  accounts of the first next to the transactions of the second, and only invocations of
  the first account are left.
\<close>

theorem stale_invocation_overwrites_new_account:
  assumes "pending s = []" and "wallet s \<noteq> Some (True, Some k1)" and "k1 \<noteq> k2"
    and "snd (fetch_portfolio r k1 (endpoints s)) = Inr p1"
    and "snd (fetch_portfolio r k2 (endpoints s)) = Inr p2"
    and "rpc_outcome (try_rpc_endpoints (fetch_transactions r k2) (endpoints s)) = Inr txs"
  shows "\<exists>s'. dashboard_run s
       [Wallet_changed True (Some k1), Wallet_changed True (Some k2),
        Portfolio_settled 2 r, Transactions_settled 2 r, Portfolio_settled 2 r, Transactions_settled 2 r,
        Portfolio_settled 0 r] = Some s' \<and>
     wallet s' = Some (True, Some k2) \<and> sol_balance (dash s') = Some (pf_balance p1) \<and>
     token_accounts (dash s') = pf_tokens p1 \<and> transactions (dash s') = txs \<and>
     (\<forall>c \<in> set (pending s'). cycle_key c = k1)"
  using assms by (simp add: cycle_run_defs)

text \<open>
  C17. Because both effects start an invocation, for every network the first invocation
  of a connection finishes after one or two resumptions (its batch failed, or its history
  came back either way), and then \<open>loading\<close> is false although the second invocation is
  still waiting on its batch.
\<close>

theorem loading_cleared_while_fetch_in_flight:
  assumes idle: "pending s = []" and new: "wallet s \<noteq> Some (True, Some k)"
  shows "\<exists>n s'. 0 < n \<and> n \<le> 2 \<and>
     dashboard_run (commit_wallet True (Some k) s) (take n [Portfolio_settled 0 r, Transactions_settled 0 r]) = Some s' \<and>
     \<not> loading (dash s') \<and> pending s' = [\<lparr>cycle_key = k, cycle_pc = Awaiting_portfolio\<rparr>]"
proof (cases "snd (fetch_portfolio r k (endpoints s))")
  case (Inl e)
  with assms show ?thesis by (intro exI [of _ 1]) (simp add: cycle_run_defs)
next
  case (Inr pf)
  with assms show ?thesis
    by (intro exI [of _ 2], cases "rpc_outcome (try_rpc_endpoints (fetch_transactions r k) (endpoints s))")
       (simp_all add: cycle_run_defs)
qed

text \<open>
  C18. Disconnecting does not cancel an invocation in flight: whenever an invocation
  waits on its batch and the wallet disconnects (or reports no key), the invocation can
  resume after the reset and, when its batch succeeds, fill the balance and token accounts
  in again while the wallet is disconnected, and go on to fetch the history.
\<close>

theorem disconnect_then_stale_data:
  assumes "i < length (pending s)" and "cycle_pc (pending s ! i) = Awaiting_portfolio"
    and "wallet s \<noteq> Some (c, pk)" and "\<not> (c \<and> pk \<noteq> None)"
    and "snd (fetch_portfolio r (cycle_key (pending s ! i)) (endpoints s)) = Inr p"
  shows "\<exists>s'. dashboard_run s [Wallet_changed c pk, Portfolio_settled i r] = Some s' \<and>
     wallet s' = Some (c, pk) \<and> sol_balance (dash s') = Some (pf_balance p) \<and>
     token_accounts (dash s') = pf_tokens p \<and> cycle_pc (pending s' ! i) = Awaiting_transactions"
  using assms by (simp add: cycle_run_defs)

text \<open>
  C27. Both transitions outside the spec's machine occur whenever a wallet connects while
  nothing is in flight: if the first invocation succeeds and the second's batch then
  fails, the dashboard goes from ready to error; and a disconnect right after the
  connection takes it from loading straight to disconnected.
\<close>

theorem spec_machine_extra_transitions_occur:
  assumes "pending s = []" and "wallet s \<noteq> Some (True, Some k)"
    and "snd (fetch_portfolio r1 k (endpoints s)) = Inr p"
    and "rpc_outcome (try_rpc_endpoints (fetch_transactions r1 k) (endpoints s)) = Inr txs"
    and "isl (snd (fetch_portfolio r2 k (endpoints s)))"
  shows "(\<exists>s1 s2. dashboard_run (commit_wallet True (Some k) s)
                    [Portfolio_settled 0 r1, Transactions_settled 0 r1] = Some s1 \<and>
            dashboard_step s1 (Portfolio_settled 0 r2) = Some s2 \<and> dash_status s1 = Ready \<and> dash_status s2 = Error) \<and>
         (\<exists>s3. dashboard_step (commit_wallet True (Some k) s) (Wallet_changed False None) = Some s3 \<and>
            dash_status (commit_wallet True (Some k) s) = Loading \<and> dash_status s3 = Disconnected)"
  using assms by (auto simp: cycle_run_defs dash_status_def reset_state_def isl_def split: sum.splits)

text \<open>
  C35. From the history service to the page: when an invocation's transaction loop succeeds
  and no error is shown, the page lists every transaction the first answering endpoint
  returned, once and in its order, keyed and linked to the explorer by its signature
  verbatim, with the generic message for an instruction type it does not know and the
  status of its outcome.
\<close>

theorem history_reaches_page:
  assumes "settle_transactions r i s = Some s'"
    and "rpc_spec (get_transactions r (cycle_key (pending s ! i))) (endpoints s) = Inr raw"
    and "error (dash s) = None"
  shows "\<exists>v items. render True pk (dash s') = Dashboard_page v \<and> tx_section v = Tx_list items \<and>
           map item_key items = map raw_signature raw \<and>
           map item_href items = map (\<lambda>t. explorer_tx_prefix @ raw_signature t) raw \<and>
           map item_message items =
             map (\<lambda>t. case raw_instruction t of None \<Rightarrow> unknown_transaction_message | Some m \<Rightarrow> m) raw \<and>
           map item_status items = map (\<lambda>t. if raw_failed t then ''failed'' else ''success'') raw"
proof -
  from assms(1,2) have "transactions (dash s') = map simplify_transaction raw"
    and "\<not> loading (dash s')" and "error (dash s') = error (dash s)"
    by (auto simp: settle_transactions_def Let_def fetch_transactions_outcome split: if_splits)
  with assms(3) show ?thesis
    by (simp add: render_def render_tx_panel_def render_tx_def simplify_transaction_def comp_def)
qed

section \<open>Witnesses\<close>

text \<open>Each theorem with hypotheses, applied where its hypotheses hold.\<close>

theorem toggle_changes_only_visibility_witness:
  "connected_state\<lparr>dash := toggle_balance (dash connected_state)\<rparr> =
   connected_state\<lparr>dash := (dash connected_state)\<lparr>show_balance := True\<rparr>\<rparr>"
proof -
  have h: "dashboard_step connected_state Toggle_clicked =
             Some (connected_state\<lparr>dash := toggle_balance (dash connected_state)\<rparr>)"
    by (simp add: connected_state_def run_defs)
  have "connected_state\<lparr>dash := toggle_balance (dash connected_state)\<rparr> =
        connected_state\<lparr>dash := (dash connected_state)\<lparr>show_balance := \<not> show_balance (dash connected_state)\<rparr>\<rparr>"
    by (rule toggle_changes_only_visibility [OF h])
  then show ?thesis by (simp add: connected_state_def run_defs)
qed

theorem disconnect_resets_state_witness:
  "sol_balance (dash (commit_wallet False None (portfolio_shown_state demo_remote))) = None \<and>
   token_accounts (dash (commit_wallet False None (portfolio_shown_state demo_remote))) = [] \<and>
   pending (commit_wallet False None (portfolio_shown_state demo_remote)) =
     pending (portfolio_shown_state demo_remote)"
proof -
  let ?s = "portfolio_shown_state demo_remote"
  have h1: "\<not> (False \<and> (None :: pubkey option) \<noteq> None)" by simp
  have h2: "wallet ?s \<noteq> Some (False, None)"
    by (simp add: portfolio_shown_state_def connected_state_def remote_defs run_defs)
  have h3: "dashboard_step ?s (Wallet_changed False None) = Some (commit_wallet False None ?s)" by simp
  from disconnect_resets_state [OF h1 h2 h3] show ?thesis by simp
qed

theorem connect_starts_two_fetches_witness:
  "pending connected_state = [\<lparr>cycle_key = ''k1'', cycle_pc = Awaiting_portfolio\<rparr>,
                             \<lparr>cycle_key = ''k1'', cycle_pc = Awaiting_portfolio\<rparr>] \<and>
   loading (dash connected_state) \<and> error (dash connected_state) = None \<and>
   dash connected_state = init_dash\<lparr>loading := True, error := None\<rparr>"
proof -
  have h1: "wallet (init_sys None) \<noteq> Some (True, Some ''k1'')" by (simp add: init_sys_def)
  have h2: "dashboard_step (init_sys None) (Wallet_changed True (Some ''k1'')) = Some connected_state"
    by (simp add: connected_state_def)
  from connect_starts_two_fetches [OF h1 h2] show ?thesis by (simp add: init_sys_def)
qed

theorem portfolio_failure_keeps_previous_data_witness:
  "error (dash (portfolio_shown_state price_down_remote)) = Some fetch_error_message \<and>
   \<not> loading (dash (portfolio_shown_state price_down_remote)) \<and>
   sol_balance (dash (portfolio_shown_state price_down_remote)) = None \<and>
   pending (portfolio_shown_state price_down_remote) = remove_at 0 (pending connected_state)"
proof -
  have h1: "settle_portfolio price_down_remote 0 connected_state =
              Some (portfolio_shown_state price_down_remote)"
    by (simp add: portfolio_shown_state_def connected_state_def remote_defs run_defs)
  have h2: "isl (snd (fetch_portfolio price_down_remote (cycle_key (pending connected_state ! 0))
                        (endpoints connected_state)))"
    by (simp add: connected_state_def remote_defs run_defs)
  from portfolio_failure_keeps_previous_data [OF h1 h2] show ?thesis
    by (simp add: connected_state_def run_defs)
qed

theorem transactions_failure_keeps_portfolio_witness:
  "error (dash (the (settle_transactions history_down_remote 0 (portfolio_shown_state history_down_remote))))
     = Some fetch_error_message \<and>
   sol_balance (dash (the (settle_transactions history_down_remote 0 (portfolio_shown_state history_down_remote))))
     = Some 1"
proof -
  let ?s = "portfolio_shown_state history_down_remote"
  have h1: "settle_transactions history_down_remote 0 ?s =
              Some (the (settle_transactions history_down_remote 0 ?s))"
    by (simp add: portfolio_shown_state_def connected_state_def remote_defs run_defs)
  have h2: "isl (rpc_outcome (try_rpc_endpoints (fetch_transactions history_down_remote
              (cycle_key (pending ?s ! 0))) (endpoints ?s)))"
    by (simp add: portfolio_shown_state_def connected_state_def remote_defs run_defs)
  have h3: "sol_balance (dash ?s) = Some 1"
    by (simp add: portfolio_shown_state_def connected_state_def remote_defs run_defs)
  from transactions_failure_keeps_portfolio [OF h1 h2] h3 show ?thesis by simp
qed

lemma race_reachable:
  "reachable None (the (dashboard_run (init_sys None) race_events))"
proof -
  have "dashboard_run (init_sys None) race_events = Some (the (dashboard_run (init_sys None) race_events))"
    by (simp add: race_events_def remote_defs run_defs)
  then show ?thesis by (rule reachable_init_run)
qed

lemma complete_reachable:
  "reachable None (the (dashboard_run (init_sys None) complete_events))"
proof -
  have "dashboard_run (init_sys None) complete_events =
          Some (the (dashboard_run (init_sys None) complete_events))"
    by (simp add: complete_events_def remote_defs run_defs)
  then show ?thesis by (rule reachable_init_run)
qed

theorem reachable_balance_iff_price_witness:
  "sol_balance (dash (the (dashboard_run (init_sys None) race_events))) = None \<longleftrightarrow>
   sol_price (dash (the (dashboard_run (init_sys None) race_events))) = None"
  by (rule reachable_balance_iff_price [OF race_reachable])

theorem reachable_error_generic_witness:
  "error (dash (the (dashboard_run (init_sys None) race_events))) = None \<or>
   error (dash (the (dashboard_run (init_sys None) race_events))) = Some fetch_error_message"
  by (rule reachable_error_generic [OF race_reachable])

theorem reachable_idle_not_loading_witness:
  "\<not> loading (dash (the (dashboard_run (init_sys None) complete_events)))"
proof -
  have "pending (the (dashboard_run (init_sys None) complete_events)) = []"
    by (simp add: complete_events_def remote_defs run_defs)
  then show ?thesis by (rule reachable_idle_not_loading [OF complete_reachable])
qed

theorem portfolio_success_shows_first_endpoint_values_witness:
  "sol_balance (dash (portfolio_shown_state demo_remote)) = Some 1 \<and>
   sol_price (dash (portfolio_shown_state demo_remote)) = Some 150"
proof -
  have h1: "settle_portfolio demo_remote 0 connected_state = Some (portfolio_shown_state demo_remote)"
    by (simp add: portfolio_shown_state_def connected_state_def remote_defs run_defs)
  have k: "cycle_key (pending connected_state ! 0) = ''k1''" and
       e: "endpoints connected_state = rpc_endpoints None"
    by (simp_all add: connected_state_def run_defs)
  have h2: "rpc_spec (get_sol_balance demo_remote (cycle_key (pending connected_state ! 0)))
              (endpoints connected_state) = Inr 1"
    by (simp add: k e rpc_spec_def remote_defs rpc_endpoints_def)
  have h3: "get_sol_price_in_usd demo_remote = Inr 150" by (simp add: remote_defs)
  have h4: "rpc_spec (get_token_accounts demo_remote (cycle_key (pending connected_state ! 0)))
              (endpoints connected_state) = Inr []"
    by (simp add: k e rpc_spec_def remote_defs rpc_endpoints_def)
  have h5: "rpc_spec (get_stake_accounts demo_remote (cycle_key (pending connected_state ! 0)))
              (endpoints connected_state) = Inr []"
    by (simp add: k e rpc_spec_def remote_defs rpc_endpoints_def)
  from portfolio_success_shows_first_endpoint_values [OF h1 h2 h3 h4 h5] show ?thesis by simp
qed

theorem transactions_success_shows_history_witness:
  "transactions (dash (the (settle_transactions demo_remote 0 (portfolio_shown_state demo_remote)))) = [] \<and>
   \<not> loading (dash (the (settle_transactions demo_remote 0 (portfolio_shown_state demo_remote))))"
proof -
  let ?s = "portfolio_shown_state demo_remote"
  have h1: "settle_transactions demo_remote 0 ?s = Some (the (settle_transactions demo_remote 0 ?s))"
    by (simp add: portfolio_shown_state_def connected_state_def remote_defs run_defs)
  have h2: "rpc_spec (get_transactions demo_remote (cycle_key (pending ?s ! 0))) (endpoints ?s) = Inr []"
    by (simp add: portfolio_shown_state_def connected_state_def remote_defs run_defs rpc_spec_def)
  from transactions_success_shows_history [OF h1 h2] show ?thesis by simp
qed

theorem masked_view_hides_amounts_witness:
  "render True (Some ''k1'')
     ((dash connected_state)\<lparr>sol_balance := map_option (\<lambda>b. b + 1) (sol_balance (dash connected_state)),
        sol_price := map_option id (sol_price (dash connected_state)),
        token_accounts := [], stake_accounts := []\<rparr>) =
   render True (Some ''k1'') (dash connected_state)"
proof -
  have h: "\<not> show_balance (dash connected_state)" by (simp add: connected_state_def run_defs)
  show ?thesis by (rule masked_view_hides_amounts [OF h])
qed

theorem revealed_view_shows_amounts_witness:
  "balance_section (page_of (render True (Some ''k1'') (failed_state\<lparr>show_balance := True\<rparr>))) =
     Some \<lparr>usd_text = ''$'' @ to_fixed2 (1 * 150), sol_text = to_fixed2 1 @ '' SOL'',
           nft_text = nat_digits 0 @ '' NFTs'', stake_text = nat_digits 0 @ '' Stakes''\<rparr>"
proof -
  let ?d = "failed_state\<lparr>show_balance := True\<rparr>"
  have h1: "show_balance ?d" and h2: "sol_balance ?d = Some 1" and h3: "sol_price ?d = Some 150"
    by (simp_all add: failed_state_def)
  have h4: "render True (Some ''k1'') ?d = Dashboard_page (page_of (render True (Some ''k1'') ?d))"
    by (simp add: render_def page_of_def)
  from revealed_view_shows_amounts [OF h1 h2 h3 h4] show ?thesis
    by (simp add: failed_state_def init_dash_def)
qed

theorem tx_links_keep_signatures_witness:
  "\<exists>items. tx_section (page_of (render True (Some ''k1'') history_state)) = Tx_list items \<and>
     length items = 1 \<and>
     map (\<lambda>i. drop (length explorer_tx_prefix) (item_href i)) items = [''4sGjMW1sUnHzSxGspuhpqLDx6wiyjNtZ'']"
proof -
  have h1: "render True (Some ''k1'') history_state =
              Dashboard_page (page_of (render True (Some ''k1'') history_state))"
    by (simp add: render_def page_of_def)
  have h2: "\<not> loading history_state" and h3: "error history_state = None"
    by (simp_all add: history_state_def init_dash_def)
  from tx_links_keep_signatures [OF h1 h2 h3] show ?thesis
    by (simp add: history_state_def init_dash_def simplify_transaction_def sample_transaction_def)
qed

theorem error_hides_list_not_balance_witness:
  "tx_section (page_of (render True (Some ''k1'') failed_state)) = Tx_error (''Error: '' @ fetch_error_message) \<and>
   balance_section (page_of (render True (Some ''k1'') failed_state)) \<noteq> None"
proof -
  have h1: "render True (Some ''k1'') failed_state =
              Dashboard_page (page_of (render True (Some ''k1'') failed_state))"
    by (simp add: render_def page_of_def)
  have h2: "\<not> loading failed_state" and h3: "error failed_state = Some fetch_error_message"
    and h4: "fetch_error_message \<noteq> []" and h5: "sol_balance failed_state \<noteq> None"
    and h6: "sol_price failed_state \<noteq> None"
    by (simp_all add: failed_state_def init_dash_def fetch_error_message_def)
  show ?thesis by (rule error_hides_list_not_balance [OF h1 h2 h3 h4 h5 h6])
qed

theorem connect_label_always_connected_witness:
  "connect_label (page_of (render True None init_dash)) = ''Connected''"
proof -
  have h: "render True None init_dash = Dashboard_page (page_of (render True None init_dash))"
    by (simp add: render_def page_of_def)
  show ?thesis by (rule connect_label_always_connected [OF h])
qed

theorem dashboard_step_refines_spec_machine_witness:
  "dash_status connected_state = dash_status (init_sys None) \<or>
   spec_transition (dash_status (init_sys None)) (dash_status connected_state) \<or>
   extra_transition (dash_status (init_sys None)) (dash_status connected_state)"
proof -
  have h: "dashboard_step (init_sys None) (Wallet_changed True (Some ''k1'')) = Some connected_state"
    by (simp add: connected_state_def)
  show ?thesis by (rule dashboard_step_refines_spec_machine [OF h])
qed

lemma flaky_reachable:
  "reachable None (the (dashboard_run (init_sys None) flaky_events))"
proof -
  have "dashboard_run (init_sys None) flaky_events = Some (the (dashboard_run (init_sys None) flaky_events))"
    by (simp add: flaky_events_def remote_defs run_defs)
  then show ?thesis by (rule reachable_init_run)
qed

theorem reachable_sys_wf_witness:
  "console (the (dashboard_run (init_sys None) flaky_events)) = [Endpoint_error helius_mainnet_url ''429''] \<and>
   console_wf (rpc_endpoints None) (console (the (dashboard_run (init_sys None) flaky_events)))"
proof -
  have "sys_wf None (the (dashboard_run (init_sys None) flaky_events))"
    by (rule reachable_sys_wf [OF flaky_reachable])
  moreover have "console (the (dashboard_run (init_sys None) flaky_events)) = [Endpoint_error helius_mainnet_url ''429'']"
    by (simp add: flaky_events_def remote_defs run_defs endpoint_entries_def
        helius_mainnet_url_def cluster_api_url_mainnet_beta_def)
  ultimately show ?thesis by (simp add: sys_wf_def)
qed

lemma page_events_reachable:
  "page_reachable None (the (page_run (init_page None) page_events))"
proof -
  have "page_run (init_page None) page_events = Some (the (page_run (init_page None) page_events))"
    by (simp add: page_run_defs remote_defs run_defs)
  then show ?thesis by (rule page_reachable_run [OF page_reachable.start])
qed

theorem page_dashboard_in_sync_witness:
  "reachable None (page_dash (the (page_run (init_page None) page_events))) \<and>
   wallet (page_dash (the (page_run (init_page None) page_events))) = Some (True, Some ''k1'')"
proof -
  have h: "adapter_loaded (the (page_run (init_page None) page_events))"
    by (simp add: page_run_defs remote_defs run_defs)
  have c: "provider_ctx (the (page_run (init_page None) page_events)) = k1_context"
    by (simp add: page_run_defs remote_defs run_defs)
  from page_dashboard_in_sync [OF page_events_reachable h] c show ?thesis
    by (simp add: k1_context_def)
qed

theorem page_before_provider_empty_witness:
  "home_page (init_page None\<lparr>button_loaded := True\<rparr>) = (Page_placeholder, [])"
proof -
  have "page_step (init_page None) Button_module_loaded = Some (init_page None\<lparr>button_loaded := True\<rparr>)"
    by (simp add: init_page_def)
  then have r: "page_reachable None (init_page None\<lparr>button_loaded := True\<rparr>)"
    by (rule page_reachable.step [OF page_reachable.start])
  have h: "\<not> adapter_loaded (init_page None\<lparr>button_loaded := True\<rparr>)"
    by (simp add: init_page_def)
  from page_before_provider_empty [OF r h] show ?thesis by simp
qed

theorem page_keeps_affordances_witness:
  "\<exists>h d. fst (home_page (the (page_run (init_page None) page_events))) = Page_content h (Dashboard_page d) \<and>
     header_wallet h = Some Wallet_multi_button \<and> error_note d = Some fetch_error_message"
proof -
  let ?p = "the (page_run (init_page None) page_events)"
  have h1: "adapter_loaded ?p" and h2: "button_loaded ?p" and h3: "wc_connected (provider_ctx ?p)"
    and h4: "error (dash (page_dash ?p)) = Some fetch_error_message"
    by (simp_all add: page_run_defs remote_defs run_defs)
  from page_keeps_affordances [OF page_events_reachable h1 h2] h3 h4 show ?thesis by auto
qed

theorem dashboard_step_work_witness:
  "pending_work (portfolio_shown_state demo_remote) < pending_work connected_state"
proof -
  have h: "dashboard_step connected_state (Portfolio_settled 0 demo_remote) = Some (portfolio_shown_state demo_remote)"
    by (simp add: portfolio_shown_state_def connected_state_def remote_defs run_defs)
  from dashboard_step_work [OF h] show ?thesis by simp
qed

theorem drain_reaches_rest_witness:
  "\<exists>s'. dashboard_run connected_state (drain history_down_remote connected_state) = Some s' \<and>
     pending s' = [] \<and> \<not> loading (dash s') \<and> length (drain history_down_remote connected_state) \<le> 4"
proof -
  have "dashboard_step (init_sys None) (Wallet_changed True (Some ''k1'')) = Some connected_state"
    by (simp add: connected_state_def)
  then have r: "reachable None connected_state" by (rule reachable.step [OF reachable.start])
  have n: "length (pending connected_state) = 2"
    by (simp add: connected_state_def run_defs)
  from drain_reaches_rest [OF r, of history_down_remote] n show ?thesis by simp
qed

theorem history_reaches_page_witness:
  "\<exists>v items. render True (Some ''k1'') (dash (the (settle_transactions history_remote 0 (portfolio_shown_state history_remote)))) = Dashboard_page v \<and>
     tx_section v = Tx_list items \<and>
     map item_key items = [''4sGjMW1sUnHzSxGspuhpqLDx6wiyjNtZ'', ''5jXbH2pQ9vRk''] \<and>
     map item_href items = [explorer_tx_prefix @ ''4sGjMW1sUnHzSxGspuhpqLDx6wiyjNtZ'',
                            explorer_tx_prefix @ ''5jXbH2pQ9vRk''] \<and>
     map item_message items = [''transfer'', unknown_transaction_message] \<and>
     map item_status items = [''success'', ''failed'']"
proof -
  let ?s = "portfolio_shown_state history_remote"
  have h1: "settle_transactions history_remote 0 ?s = Some (the (settle_transactions history_remote 0 ?s))"
    by (simp add: portfolio_shown_state_def connected_state_def remote_defs run_defs)
  have h2: "rpc_spec (get_transactions history_remote (cycle_key (pending ?s ! 0))) (endpoints ?s) =
              Inr [sample_transaction, unknown_transaction]"
    by (simp add: portfolio_shown_state_def connected_state_def remote_defs run_defs rpc_spec_def)
  have h3: "error (dash ?s) = None"
    by (simp add: portfolio_shown_state_def connected_state_def remote_defs run_defs)
  from history_reaches_page [OF h1 h2 h3, of "Some ''k1''"] show ?thesis
    by (simp add: sample_transaction_def unknown_transaction_def)
qed

theorem fetch_portfolio_rejects_witness:
  "isl (snd (fetch_portfolio price_down_remote ''k1'' (rpc_endpoints None)))"
  using fetch_portfolio_rejects [of price_down_remote "''k1''" "rpc_endpoints None"]
  by (simp add: remote_defs)


theorem zero_accounts_ready_witness:
  "\<exists>s'. dashboard_run connected_state (drain demo_remote connected_state) = Some s' \<and>
     dash_status s' = Ready \<and> token_accounts (dash s') = [] \<and> stake_accounts (dash s') = [] \<and>
     sol_balance (dash s') = Some 1 \<and> sol_price (dash s') = Some 150 \<and>
     transactions (dash s') = [] \<and> pending s' = []"
proof -
  let ?s = "init_sys None"
  have h1: "pending ?s = []" and h2: "wallet ?s \<noteq> Some (True, Some ''k1'')"
    by (simp_all add: init_sys_def)
  have h3: "rpc_spec (get_sol_balance demo_remote ''k1'') (endpoints ?s) = Inr 1"
    and h4: "get_sol_price_in_usd demo_remote = Inr 150"
    and h5: "rpc_spec (get_token_accounts demo_remote ''k1'') (endpoints ?s) = Inr []"
    and h6: "rpc_spec (get_stake_accounts demo_remote ''k1'') (endpoints ?s) = Inr []"
    and h7: "rpc_spec (get_transactions demo_remote ''k1'') (endpoints ?s) = Inr []"
    by (simp_all add: remote_defs rpc_spec_def init_sys_def rpc_endpoints_def)
  from zero_accounts_ready [OF h1 h2 h3 h4 h5 h6 h7] show ?thesis
    by (simp add: connected_state_def)
qed

theorem stale_invocation_overwrites_new_account_witness:
  "\<exists>s'. dashboard_run (init_sys None) race_events = Some s' \<and>
     wallet s' = Some (True, Some ''k2'') \<and> sol_balance (dash s') = Some 1 \<and>
     token_accounts (dash s') = [] \<and> transactions (dash s') = [] \<and>
     (\<forall>c \<in> set (pending s'). cycle_key c = ''k1'')"
proof -
  let ?s = "init_sys None"
  have h1: "pending ?s = []" and h2: "wallet ?s \<noteq> Some (True, Some ''k1'')"
    and h3: "''k1'' \<noteq> ''k2''"
    by (simp_all add: init_sys_def)
  have h4: "snd (fetch_portfolio demo_remote ''k1'' (endpoints ?s)) =
              Inr \<lparr>pf_balance = 1, pf_price = 150, pf_tokens = [], pf_stakes = []\<rparr>"
    and h5: "snd (fetch_portfolio demo_remote ''k2'' (endpoints ?s)) =
              Inr \<lparr>pf_balance = 2, pf_price = 150, pf_tokens = [], pf_stakes = []\<rparr>"
    and h6: "rpc_outcome (try_rpc_endpoints (fetch_transactions demo_remote ''k2'') (endpoints ?s)) = Inr []"
    by (simp_all add: remote_defs run_defs)
  from stale_invocation_overwrites_new_account [OF h1 h2 h3 h4 h5 h6] show ?thesis
    by (simp add: race_events_def)
qed

theorem loading_cleared_while_fetch_in_flight_witness:
  "\<exists>n s'. 0 < n \<and> n \<le> 2 \<and>
     dashboard_run connected_state (take n [Portfolio_settled 0 demo_remote, Transactions_settled 0 demo_remote]) = Some s' \<and>
     \<not> loading (dash s') \<and> pending s' = [\<lparr>cycle_key = ''k1'', cycle_pc = Awaiting_portfolio\<rparr>]"
proof -
  have h1: "pending (init_sys None) = []" and h2: "wallet (init_sys None) \<noteq> Some (True, Some ''k1'')"
    by (simp_all add: init_sys_def)
  from loading_cleared_while_fetch_in_flight [OF h1 h2, of demo_remote] show ?thesis
    by (simp add: connected_state_def)
qed

theorem disconnect_then_stale_data_witness:
  "\<exists>s'. dashboard_run connected_state [Wallet_changed False None, Portfolio_settled 0 demo_remote] = Some s' \<and>
     wallet s' = Some (False, None) \<and> sol_balance (dash s') = Some 1 \<and>
     token_accounts (dash s') = [] \<and> cycle_pc (pending s' ! 0) = Awaiting_transactions"
proof -
  have h1: "0 < length (pending connected_state)"
    and h2: "cycle_pc (pending connected_state ! 0) = Awaiting_portfolio"
    and h3: "wallet connected_state \<noteq> Some (False, None)"
    by (simp_all add: connected_state_def run_defs)
  have h4: "\<not> (False \<and> (None :: pubkey option) \<noteq> None)" by simp
  have h5: "snd (fetch_portfolio demo_remote (cycle_key (pending connected_state ! 0)) (endpoints connected_state)) =
              Inr \<lparr>pf_balance = 1, pf_price = 150, pf_tokens = [], pf_stakes = []\<rparr>"
    by (simp add: connected_state_def remote_defs run_defs)
  from disconnect_then_stale_data [OF h1 h2 h3 h4 h5] show ?thesis by simp
qed

theorem spec_machine_extra_transitions_occur_witness:
  "(\<exists>s1 s2. dashboard_run connected_state
                  [Portfolio_settled 0 demo_remote, Transactions_settled 0 demo_remote] = Some s1 \<and>
            dashboard_step s1 (Portfolio_settled 0 price_down_remote) = Some s2 \<and>
            dash_status s1 = Ready \<and> dash_status s2 = Error) \<and>
   (\<exists>s3. dashboard_step connected_state (Wallet_changed False None) = Some s3 \<and>
            dash_status connected_state = Loading \<and> dash_status s3 = Disconnected)"
proof -
  let ?s = "init_sys None"
  have h1: "pending ?s = []" and h2: "wallet ?s \<noteq> Some (True, Some ''k1'')"
    by (simp_all add: init_sys_def)
  have h3: "snd (fetch_portfolio demo_remote ''k1'' (endpoints ?s)) =
              Inr \<lparr>pf_balance = 1, pf_price = 150, pf_tokens = [], pf_stakes = []\<rparr>"
    and h4: "rpc_outcome (try_rpc_endpoints (fetch_transactions demo_remote ''k1'') (endpoints ?s)) = Inr []"
    and h5: "isl (snd (fetch_portfolio price_down_remote ''k1'' (endpoints ?s)))"
    by (simp_all add: remote_defs run_defs)
  from spec_machine_extra_transitions_occur [OF h1 h2 h3 h4 h5] show ?thesis
    by (simp add: connected_state_def)
qed

end
